theory Spec2Isabelle
  imports Complex_Main "HOL-Library.Sublist"
begin

section \<open>JavaScript values\<close>

text \<open>
  The values the program handles are the results of \<^verbatim>\<open>JSON.parse\<close>, of
  \<^verbatim>\<open>resp.json()\<close> and of \<^verbatim>\<open>parseInt\<close>. A number is \<open>NaN\<close>, one of
  the two infinities, the negative zero or a finite value: every double is one of these. A string
  is the list of its characters. An object is the list of its own properties.
\<close>

datatype jsnum = NaN | Fin real | PosInf | NegInf | NegZero

datatype jsval =
    JUndefined
  | JNull
  | JBool bool
  | JNum jsnum
  | JStr string
  | JArr "jsval list"
  | JObj "(string \<times> jsval) list"

text \<open>What \<^verbatim>\<open>if (v)\<close>, \<^verbatim>\<open>!v\<close> and \<^verbatim>\<open>v || d\<close> test.\<close>

fun truthy :: "jsval \<Rightarrow> bool" where
  "truthy JUndefined = False"
| "truthy JNull = False"
| "truthy (JBool b) = b"
| "truthy (JNum NaN) = False"
| "truthy (JNum (Fin r)) = (r \<noteq> 0)"
| "truthy (JNum PosInf) = True"
| "truthy (JNum NegInf) = True"
| "truthy (JNum NegZero) = False"
| "truthy (JStr s) = (s \<noteq> [])"
| "truthy (JArr xs) = True"
| "truthy (JObj kvs) = True"

text \<open>What \<^verbatim>\<open>v != null\<close> and \<^verbatim>\<open>v ?? d\<close> test.\<close>

fun nullish :: "jsval \<Rightarrow> bool" where
  "nullish JUndefined = True"
| "nullish JNull = True"
| "nullish v = False"

text \<open>
  The exceptions of the program: the built-in ones, the failure of the transport
  (\<^verbatim>\<open>fetch\<close> rejects), and the three shapes of \<^verbatim>\<open>new Error(...)\<close> the
  code throws: \<^verbatim>\<open>`HTTP ${status}: ${statusText}`\<close>, the message of the backend
  (whatever value it has) and a literal message.
\<close>

datatype js_error =
    SyntaxError
  | TypeError
  | URIError
  | NetworkError string
  | HttpError nat string
  | RpcError jsval
  | Error string

text \<open>
  \<^verbatim>\<open>JSON.parse\<close>, \<^verbatim>\<open>decodeURIComponent\<close>, \<^verbatim>\<open>Number\<close> and
  \<^verbatim>\<open>parseInt\<close> belong to the runtime: they are parameters of the functions that call
  them, \<open>None\<close> where the built-in throws. The parameter \<open>parseInt\<close> stands for
  \<^verbatim>\<open>s => parseInt(s, 10)\<close>.
\<close>

definition JSON_parse :: "(string \<Rightarrow> jsval option) \<Rightarrow> string \<Rightarrow> js_error + jsval" where
  "JSON_parse parse s = (case parse s of None \<Rightarrow> Inl SyntaxError | Some j \<Rightarrow> Inr j)"

definition isArray :: "jsval \<Rightarrow> bool" where
  "isArray v = (case v of JArr xs \<Rightarrow> True | _ \<Rightarrow> False)"

definition is_string :: "jsval \<Rightarrow> bool" where
  "is_string v = (case v of JStr s \<Rightarrow> True | _ \<Rightarrow> False)"

text \<open>\<^verbatim>\<open>v.every((item) => typeof item === "string")\<close>, for an array \<open>v\<close>.\<close>

definition every_string :: "jsval \<Rightarrow> bool" where
  "every_string v = (case v of JArr xs \<Rightarrow> list_all is_string xs | _ \<Rightarrow> False)"

text \<open>The elements of an array of strings, read at the type \<^verbatim>\<open>string[]\<close>.\<close>

definition as_strings :: "jsval \<Rightarrow> string list" where
  "as_strings v =
     (case v of
        JArr xs \<Rightarrow> concat (map (\<lambda>x. case x of JStr s \<Rightarrow> [s] | _ \<Rightarrow> []) xs)
      | _ \<Rightarrow> [])"

section \<open>The request configuration resolver (index.ts, \<^verbatim>\<open>fetch\<close>)\<close>

text \<open>
  \<^verbatim>\<open>request.headers.get(name)\<close> is a string or \<^verbatim>\<open>null\<close>; a process-wide
  setting \<^verbatim>\<open>env.X\<close> is a string or \<^verbatim>\<open>undefined\<close>.
\<close>

type_synonym headers = "string \<rightharpoonup> string"

record Env =
  ODOO_URL :: "string option"
  ODOO_DB :: "string option"
  ODOO_USER :: "string option"
  ODOO_PASS :: "string option"
  ODOO_TIMEOUT :: "string option"
  ALGOLIA_API_KEY :: "string option"
  ALGOLIA_APP_ID :: "string option"
  ALGOLIA_INDEX_NAME :: "string option"
  LABUREN_API_KEY :: "string option"
  TO_USE :: "string option"

text \<open>
  The \<^verbatim>\<open>props\<close> object \<^verbatim>\<open>fetch\<close> injects into the execution context. Both
  branches write these ten keys after spreading the previous \<^verbatim>\<open>ctx.props\<close>, so
  the previous values of these keys are all overwritten. \<open>None\<close> is \<^verbatim>\<open>null\<close>.
\<close>

record props =
  odooUrl :: "string option"
  odooDb :: "string option"
  odooUser :: "string option"
  odooPass :: "string option"
  odooTimeout :: string
  algoliaApiKey :: "string option"
  algoliaAppId :: "string option"
  algoliaIndexName :: "string option"
  laburenApiKey :: "string option"
  toolsToUse :: "string list"

text \<open>The lines \<^verbatim>\<open>fetch\<close> writes to the console.\<close>

datatype console =
    Warn_to_use_shape
  | Warn_to_use_parse
  | Log_TO_USE "string list"
  | Warn_TO_USE_shape
  | Warn_TO_USE_parse
  | Log_env_fallback
  | Log_env_injected string
  | Log_headers_injected
  | Log_tools "string list"
  | Log_all_tools

text \<open>\<^verbatim>\<open>!h\<close> for a header or setting: \<^verbatim>\<open>null\<close>, \<^verbatim>\<open>undefined\<close> and the empty string.\<close>

definition falsy :: "string option \<Rightarrow> bool" where
  "falsy h = (case h of None \<Rightarrow> True | Some s \<Rightarrow> s = [])"

text \<open>\<^verbatim>\<open>h || d\<close> for a header or setting \<open>h\<close> and a literal \<open>d\<close>.\<close>

definition or_else :: "string option \<Rightarrow> string \<Rightarrow> string" where
  "or_else h d = (case h of None \<Rightarrow> d | Some s \<Rightarrow> if s = [] then d else s)"

text \<open>The body of the \<^verbatim>\<open>try\<close> block that reads the \<^verbatim>\<open>to-use\<close> header.\<close>

definition to_use_try ::
  "(string \<Rightarrow> jsval option) \<Rightarrow> string \<Rightarrow> js_error + (string list \<times> console list)" where
  "to_use_try parse toUseHeader =
     (case JSON_parse parse toUseHeader of
        Inl e \<Rightarrow> Inl e
      | Inr v \<Rightarrow>
          if \<not> isArray v \<or> \<not> every_string v then Inr ([], [Warn_to_use_shape])
          else Inr (as_strings v, []))"

text \<open>Lines 19 to 40: \<^verbatim>\<open>toolsToUse\<close> from the header, the \<^verbatim>\<open>catch\<close> included.\<close>

definition header_toolsToUse ::
  "(string \<Rightarrow> jsval option) \<Rightarrow> string option \<Rightarrow> js_error + (string list \<times> console list)" where
  "header_toolsToUse parse toUseHeader =
     (case toUseHeader of
        None \<Rightarrow> Inr ([], [])
      | Some h \<Rightarrow>
          if h = [] then Inr ([], [])
          else (case to_use_try parse h of
                  Inl e \<Rightarrow> Inr ([], [Warn_to_use_parse])
                | Inr r \<Rightarrow> Inr r))"

text \<open>The body of the \<^verbatim>\<open>try\<close> block that reads \<^verbatim>\<open>env.TO_USE\<close>.\<close>

definition TO_USE_try ::
  "(string \<Rightarrow> jsval option) \<Rightarrow> string \<Rightarrow> js_error + (string list \<times> console list)" where
  "TO_USE_try parse s =
     (case JSON_parse parse s of
        Inl e \<Rightarrow> Inl e
      | Inr parsed \<Rightarrow>
          if isArray parsed \<and> every_string parsed
          then Inr (as_strings parsed, [Log_TO_USE (as_strings parsed)])
          else Inr ([], [Warn_TO_USE_shape]))"

text \<open>Lines 43 to 63: \<^verbatim>\<open>envToolsToUse\<close>, the \<^verbatim>\<open>catch\<close> included.\<close>

definition env_toolsToUse ::
  "(string \<Rightarrow> jsval option) \<Rightarrow> string option \<Rightarrow> js_error + (string list \<times> console list)" where
  "env_toolsToUse parse setting =
     (case setting of
        None \<Rightarrow> Inr ([], [])
      | Some s \<Rightarrow>
          if s = [] then Inr ([], [])
          else (case TO_USE_try parse s of
                  Inl e \<Rightarrow> Inr ([], [Warn_TO_USE_parse])
                | Inr r \<Rightarrow> Inr r))"

text \<open>\<^verbatim>\<open>!odooUrl || !odooDb || !odooUser || !odooPass\<close>, the guard of line 69.\<close>

definition mandatory_missing :: "headers \<Rightarrow> bool" where
  "mandatory_missing hs =
     (falsy (hs ''odoo-url'') \<or> falsy (hs ''odoo-db'') \<or>
      falsy (hs ''odoo-user'') \<or> falsy (hs ''odoo-pass''))"

definition tools_log :: "string list \<Rightarrow> console" where
  "tools_log ts = (if length ts > 0 then Log_tools ts else Log_all_tools)"

text \<open>Lines 75 to 86 and 90 to 94: the props of the fallback branch.\<close>

definition env_props :: "Env \<Rightarrow> string list \<Rightarrow> props" where
  "env_props env envToolsToUse =
     \<lparr> odooUrl = Some (or_else (ODOO_URL env) ''https://tu-odoo-instance.com''),
       odooDb = Some (or_else (ODOO_DB env) ''tu_database''),
       odooUser = Some (or_else (ODOO_USER env) ''usuario@ejemplo.com''),
       odooPass = Some (or_else (ODOO_PASS env) ''tu_password''),
       odooTimeout = or_else (ODOO_TIMEOUT env) ''60000'',
       algoliaApiKey = Some (or_else (ALGOLIA_API_KEY env) ''''),
       algoliaAppId = Some (or_else (ALGOLIA_APP_ID env) ''''),
       algoliaIndexName = Some (or_else (ALGOLIA_INDEX_NAME env) ''''),
       laburenApiKey = Some (or_else (LABUREN_API_KEY env) ''''),
       toolsToUse = envToolsToUse \<rparr>"

text \<open>Lines 109 to 121: the props of the header branch.\<close>

definition header_props :: "headers \<Rightarrow> string list \<Rightarrow> props" where
  "header_props hs tools =
     \<lparr> odooUrl = hs ''odoo-url'',
       odooDb = hs ''odoo-db'',
       odooUser = hs ''odoo-user'',
       odooPass = hs ''odoo-pass'',
       odooTimeout = or_else (hs ''odoo-timeout'') ''60000'',
       algoliaApiKey = hs ''algolia-api-key'',
       algoliaAppId = hs ''algolia-app-id'',
       algoliaIndexName = hs ''algolia-index-name'',
       laburenApiKey = hs ''laburen-api-key'',
       toolsToUse = tools \<rparr>"

text \<open>
  \<^verbatim>\<open>fetch\<close> up to the construction of the context: the props it injects and what it
  logs, or the exception that escapes it.
\<close>

definition fetch_props ::
  "(string \<Rightarrow> jsval option) \<Rightarrow> headers \<Rightarrow> Env \<Rightarrow> js_error + (props \<times> console list)" where
  "fetch_props parse hs env =
     (case header_toolsToUse parse (hs ''to-use'') of
        Inl e \<Rightarrow> Inl e
      | Inr (tools, log1) \<Rightarrow>
          (case env_toolsToUse parse (TO_USE env) of
             Inl e \<Rightarrow> Inl e
           | Inr (envToolsToUse, log2) \<Rightarrow>
               if mandatory_missing hs
               then Inr (env_props env envToolsToUse,
                         log1 @ log2 @
                         [Log_env_fallback,
                          Log_env_injected (or_else (ODOO_URL env) ''https://tu-odoo-instance.com''),
                          tools_log envToolsToUse])
               else Inr (header_props hs tools,
                         log1 @ log2 @ [Log_headers_injected, tools_log tools])))"

section \<open>The configuration of the agent (mcp.ts, \<^verbatim>\<open>getConfigFromContext\<close>)\<close>

record OdooConfig =
  baseUrl :: string
  db :: string
  username :: string
  password :: string
  timeout :: "jsnum option"

record AlgoliaConfig =
  apiKey :: string
  appId :: string
  indexName :: string

record context_config =
  odooConfig :: OdooConfig
  algoliaConfig :: AlgoliaConfig
  cfg_toolsToUse :: "string list"
  cfg_laburenApiKey :: string

definition getConfigFromContext :: "(string \<Rightarrow> jsnum) \<Rightarrow> props \<Rightarrow> context_config" where
  "getConfigFromContext parseInt contextProps =
     \<lparr> odooConfig =
         \<lparr> baseUrl = or_else (odooUrl contextProps) '''',
           db = or_else (odooDb contextProps) '''',
           username = or_else (odooUser contextProps) '''',
           password = or_else (odooPass contextProps) '''',
           timeout = Some (parseInt (or_else (Some (odooTimeout contextProps)) ''60000'')) \<rparr>,
       algoliaConfig =
         \<lparr> apiKey = or_else (algoliaApiKey contextProps) '''',
           appId = or_else (algoliaAppId contextProps) '''',
           indexName = or_else (algoliaIndexName contextProps) '''' \<rparr>,
       cfg_toolsToUse = toolsToUse contextProps,
       cfg_laburenApiKey = or_else (laburenApiKey contextProps) '''' \<rparr>"

section \<open>The capability gate (mcp.ts, \<^verbatim>\<open>shouldIgnoreTool\<close>)\<close>

definition shouldIgnoreTool :: "(string \<Rightarrow> jsnum) \<Rightarrow> props \<Rightarrow> string \<Rightarrow> bool" where
  "shouldIgnoreTool parseInt contextProps toolName =
     (let tools = cfg_toolsToUse (getConfigFromContext parseInt contextProps)
      in if length tools = 0 then False
         else \<not> (toolName \<in> set tools))"

section \<open>The remote procedure client (odooClient.ts)\<close>

text \<open>
  The client object: the session identity, \<^verbatim>\<open>null\<close> at first, and the stored
  configuration. The constructor computes \<^verbatim>\<open>{ timeout: 60000, ...cfg }\<close>: the
  literal stands only where \<open>cfg\<close> has no \<open>timeout\<close> property. It is a function of
  the configuration alone and has no access to the transport.
\<close>

record OdooClient =
  uid :: jsval
  cfg :: OdooConfig

definition new_OdooClient :: "OdooConfig \<Rightarrow> OdooClient" where
  "new_OdooClient c =
     \<lparr> uid = JNull,
       cfg = (case timeout c of None \<Rightarrow> c\<lparr>timeout := Some (Fin 60000)\<rparr> | Some t \<Rightarrow> c) \<rparr>"

text \<open>
  One transport request, the \<^verbatim>\<open>fetch\<close> of \<^verbatim>\<open>jsonRpc\<close>: the address, the
  three fields of \<^verbatim>\<open>params\<close> and the \<^verbatim>\<open>cf.timeout\<close> option. The constant
  fields of the envelope and its fresh \<^verbatim>\<open>uuid()\<close> are left out.
\<close>

record rpc_request =
  url :: string
  service :: string
  rpc_method :: string
  args :: "jsval list"
  cf_timeout :: "jsnum option"

text \<open>
  What comes back: \<^verbatim>\<open>fetch\<close> rejects, or there is a response with
  \<^verbatim>\<open>ok\<close>, \<^verbatim>\<open>status\<close>, \<^verbatim>\<open>statusText\<close> and a body that
  \<^verbatim>\<open>resp.json()\<close> parses (\<open>None\<close> where it throws).
\<close>

datatype response =
    Rejected string
  | Response bool nat string "jsval option"

text \<open>
  The backend is any function from its own state and a request to a response and a new state.
  The network state pairs it with the list of the requests sent so far.
\<close>

type_synonym 'w transport = "'w \<Rightarrow> rpc_request \<Rightarrow> response \<times> 'w"

record 'w net =
  world :: 'w
  sent :: "rpc_request list"

text \<open>
  Reading a property \<^verbatim>\<open>v.k\<close>: a TypeError on \<^verbatim>\<open>null\<close> and
  \<^verbatim>\<open>undefined\<close>, the own property of an object, \<^verbatim>\<open>undefined\<close> otherwise
  (none of the names the code reads is a built-in property of a string, a number or an array).
\<close>

fun get_prop :: "jsval \<Rightarrow> string \<Rightarrow> js_error + jsval" where
  "get_prop JUndefined k = Inl TypeError"
| "get_prop JNull k = Inl TypeError"
| "get_prop (JObj kvs) k = Inr (case map_of kvs k of None \<Rightarrow> JUndefined | Some v \<Rightarrow> v)"
| "get_prop v k = Inr JUndefined"

text \<open>\<^verbatim>\<open>data.error.data?.message ?? "Odoo RPC error"\<close>, for a truthy \<^verbatim>\<open>data.error\<close>.\<close>

definition rpc_message :: "jsval \<Rightarrow> jsval" where
  "rpc_message err =
     (let m = (case get_prop err ''data'' of
                 Inl e \<Rightarrow> JUndefined
               | Inr d \<Rightarrow>
                   if nullish d then JUndefined
                   else (case get_prop d ''message'' of Inl e \<Rightarrow> JUndefined | Inr m \<Rightarrow> m))
      in if nullish m then JStr ''Odoo RPC error'' else m)"

text \<open>The request \<^verbatim>\<open>jsonRpc\<close> builds from the stored configuration and its arguments.\<close>

definition envelope :: "OdooClient \<Rightarrow> string \<Rightarrow> string \<Rightarrow> jsval list \<Rightarrow> rpc_request" where
  "envelope this srv meth as =
     \<lparr> url = baseUrl (cfg this) @ ''/jsonrpc'', service = srv, rpc_method = meth,
       args = as, cf_timeout = timeout (cfg this) \<rparr>"

definition jsonRpc ::
  "'w transport \<Rightarrow> OdooClient \<Rightarrow> string \<Rightarrow> string \<Rightarrow> jsval list \<Rightarrow> 'w net \<Rightarrow>
     (js_error + jsval) \<times> 'w net" where
  "jsonRpc tr this srv meth as n =
     (let req = envelope this srv meth as;
          (resp, w) = tr (world n) req;
          n' = \<lparr> world = w, sent = sent n @ [req] \<rparr>
      in (case resp of
            Rejected m \<Rightarrow> (Inl (NetworkError m), n')
          | Response ok status statusText body \<Rightarrow>
              if \<not> ok then (Inl (HttpError status statusText), n')
              else (case body of
                      None \<Rightarrow> (Inl SyntaxError, n')
                    | Some data \<Rightarrow>
                        (case get_prop data ''error'' of
                           Inl e \<Rightarrow> (Inl e, n')
                         | Inr err \<Rightarrow>
                             if truthy err then (Inl (RpcError (rpc_message err)), n')
                             else (get_prop data ''result'', n')))))"

text \<open>
  \<^verbatim>\<open>login\<close>: nothing when \<^verbatim>\<open>this.uid != null\<close>; otherwise the login envelope,
  and \<^verbatim>\<open>this.uid\<close> becomes whatever \<^verbatim>\<open>jsonRpc\<close> returns. When
  \<^verbatim>\<open>jsonRpc\<close> throws, the assignment does not happen.
\<close>

definition login ::
  "'w transport \<Rightarrow> OdooClient \<Rightarrow> 'w net \<Rightarrow> (js_error + unit) \<times> OdooClient \<times> 'w net" where
  "login tr this n =
     (if \<not> nullish (uid this) then (Inr (), this, n)
      else (case jsonRpc tr this ''common'' ''login''
                   [JStr (db (cfg this)), JStr (username (cfg this)), JStr (password (cfg this))] n of
              (Inl e, n') \<Rightarrow> (Inl e, this, n')
            | (Inr r, n') \<Rightarrow> (Inr (), this\<lparr>uid := r\<rparr>, n')))"

definition executeKw ::
  "'w transport \<Rightarrow> OdooClient \<Rightarrow> jsval \<Rightarrow> string \<Rightarrow> jsval list \<Rightarrow> jsval \<Rightarrow> 'w net \<Rightarrow>
     (js_error + jsval) \<times> OdooClient \<times> 'w net" where
  "executeKw tr this model meth as kwargs n =
     (case login tr this n of
        (Inl e, this', n') \<Rightarrow> (Inl e, this', n')
      | (Inr u, this', n') \<Rightarrow>
          (case jsonRpc tr this' ''object'' ''execute_kw''
                  [JStr (db (cfg this')), uid this', JStr (password (cfg this')),
                   model, JStr meth, JArr as, kwargs] n' of
             (r, n'') \<Rightarrow> (r, this', n'')))"

text \<open>
  A sequence of calls on one client instance, each awaited before the next is made; a call that
  fails does not stop the caller from making the next one.
\<close>

record call =
  call_model :: jsval
  call_method :: string
  call_args :: "jsval list"
  call_kwargs :: jsval

fun run_calls ::
  "'w transport \<Rightarrow> OdooClient \<Rightarrow> call list \<Rightarrow> 'w net \<Rightarrow> OdooClient \<times> 'w net" where
  "run_calls tr this [] n = (this, n)"
| "run_calls tr this (c # cs) n =
     (case executeKw tr this (call_model c) (call_method c) (call_args c) (call_kwargs c) n of
        (r, this', n') \<Rightarrow> run_calls tr this' cs n')"

text \<open>
  Calls in flight together on one client instance. \<^verbatim>\<open>executeKw\<close> gives up control
  at its two \<^verbatim>\<open>await\<close>s, so a call is in one of four places: not started; suspended
  in \<^verbatim>\<open>login\<close> on the login request it has sent, whose outcome it will see when it
  resumes; suspended on the execute request it has sent; returned. One step runs one call from
  where it is to its next \<^verbatim>\<open>await\<close>: the test of \<^verbatim>\<open>this.uid\<close> is made
  when the call starts, the assignment when it resumes from the login.
\<close>

datatype task =
    Start call
  | Login_sent call "js_error + jsval"
  | Execute_sent "js_error + jsval"
  | Returned "js_error + jsval"

definition step_task ::
  "'w transport \<Rightarrow> OdooClient \<Rightarrow> task \<Rightarrow> 'w net \<Rightarrow> task \<times> OdooClient \<times> 'w net" where
  "step_task tr this t n =
     (case t of
        Start c \<Rightarrow>
          if \<not> nullish (uid this)
          then (case jsonRpc tr this ''object'' ''execute_kw''
                       [JStr (db (cfg this)), uid this, JStr (password (cfg this)),
                        call_model c, JStr (call_method c), JArr (call_args c), call_kwargs c] n of
                  (r, n') \<Rightarrow> (Execute_sent r, this, n'))
          else (case jsonRpc tr this ''common'' ''login''
                       [JStr (db (cfg this)), JStr (username (cfg this)),
                        JStr (password (cfg this))] n of
                  (r, n') \<Rightarrow> (Login_sent c r, this, n'))
      | Login_sent c (Inl e) \<Rightarrow> (Returned (Inl e), this, n)
      | Login_sent c (Inr u) \<Rightarrow>
          (case jsonRpc tr (this\<lparr>uid := u\<rparr>) ''object'' ''execute_kw''
                  [JStr (db (cfg this)), u, JStr (password (cfg this)),
                   call_model c, JStr (call_method c), JArr (call_args c), call_kwargs c] n of
             (r, n') \<Rightarrow> (Execute_sent r, this\<lparr>uid := u\<rparr>, n'))
      | Execute_sent r \<Rightarrow> (Returned r, this, n)
      | Returned r \<Rightarrow> (Returned r, this, n))"

text \<open>A schedule names, step by step, the call that runs next.\<close>

fun run_schedule ::
  "'w transport \<Rightarrow> OdooClient \<Rightarrow> task list \<Rightarrow> nat list \<Rightarrow> 'w net \<Rightarrow>
     task list \<times> OdooClient \<times> 'w net" where
  "run_schedule tr this ts [] n = (ts, this, n)"
| "run_schedule tr this ts (i # sched) n =
     (if i < length ts
      then (case step_task tr this (ts ! i) n of
              (t, this', n') \<Rightarrow> run_schedule tr this' (ts[i := t]) sched n')
      else run_schedule tr this ts sched n)"

definition is_login :: "rpc_request \<Rightarrow> bool" where
  "is_login r = (service r = ''common'' \<and> rpc_method r = ''login'')"

definition is_execute :: "rpc_request \<Rightarrow> bool" where
  "is_execute r = (service r = ''object'' \<and> rpc_method r = ''execute_kw'')"

section \<open>The agent (mcp.ts, \<^verbatim>\<open>OdooMCP\<close>)\<close>

text \<open>
  The fields of the agent the handlers read and write: the props of its context, the client in
  \<^verbatim>\<open>this.odoo\<close>, and what \<^verbatim>\<open>init\<close> has registered on the server. The
  handlers of one agent run one after the other.
\<close>

record OdooMCP =
  this_props :: props
  odoo :: OdooClient
  tools :: "string list"
  resources :: "string list"

definition getOdooClient :: "(string \<Rightarrow> jsnum) \<Rightarrow> OdooMCP \<Rightarrow> OdooMCP \<times> OdooClient" where
  "getOdooClient parseInt this =
     (let c = new_OdooClient (odooConfig (getConfigFromContext parseInt (this_props this)))
      in (this\<lparr>odoo := c\<rparr>, c))"

text \<open>\<^verbatim>\<open>init\<close>: the client, the two gated tools, the four resources.\<close>

definition init :: "(string \<Rightarrow> jsnum) \<Rightarrow> props \<Rightarrow> OdooMCP" where
  "init parseInt p =
     (let c = new_OdooClient (odooConfig (getConfigFromContext parseInt p));
          t1 = (if \<not> shouldIgnoreTool parseInt p ''search_product_by_reference_code''
                then [''search_product_by_reference_code''] else []);
          t2 = (if \<not> shouldIgnoreTool parseInt p ''create_sale_order''
                then t1 @ [''create_sale_order''] else t1)
      in \<lparr> this_props = p, odoo = c, tools = t2,
           resources = [''models'', ''model'', ''record'', ''search''] \<rparr>)"

text \<open>
  Array destructuring \<^verbatim>\<open>const [x] = v\<close>: the first element of an array or the first
  character of a string, \<^verbatim>\<open>undefined\<close> when there is none, a TypeError on a value
  that is not iterable.
\<close>

fun first_of :: "jsval \<Rightarrow> js_error + jsval" where
  "first_of (JArr []) = Inr JUndefined"
| "first_of (JArr (x # xs)) = Inr x"
| "first_of (JStr []) = Inr JUndefined"
| "first_of (JStr (c # cs)) = Inr (JStr [c])"
| "first_of v = Inl TypeError"

text \<open>
  What a tool handler returns: a text content holding \<^verbatim>\<open>JSON.stringify(v)\<close>, or the
  text of the \<^verbatim>\<open>catch\<close> branch, a prefix followed by the error.
\<close>

datatype tool_reply = Reply_json jsval | Reply_error string js_error

definition search_product_by_reference_code ::
  "(string \<Rightarrow> jsnum) \<Rightarrow> 'w transport \<Rightarrow> OdooMCP \<Rightarrow> string \<Rightarrow> 'w net \<Rightarrow> tool_reply \<times> OdooMCP \<times> 'w net" where
  "search_product_by_reference_code parseInt tr this reference_code n =
     (case getOdooClient parseInt this of
        (this1, odoo0) \<Rightarrow>
          (case executeKw tr odoo0 (JStr ''product.product'') ''search_read''
                  [JArr [JArr [JStr ''default_code'', JStr ''='', JStr reference_code]]]
                  (JObj [(''fields'', JArr [JStr ''id'', JStr ''name'', JStr ''default_code'',
                                           JStr ''list_price'', JStr ''qty_available'']),
                         (''limit'', JNum (Fin 1))]) n of
             (Inl e, odoo1, n1) \<Rightarrow>
               (Reply_error ''Error al buscar producto: '' e, this1\<lparr>odoo := odoo1\<rparr>, n1)
           | (Inr r, odoo1, n1) \<Rightarrow>
               (case first_of r of
                  Inl e \<Rightarrow>
                    (Reply_error ''Error al buscar producto: '' e, this1\<lparr>odoo := odoo1\<rparr>, n1)
                | Inr product \<Rightarrow>
                    if \<not> truthy product
                    then (Reply_json (JObj [(''error'', JStr ''Product not found'')]),
                          this1\<lparr>odoo := odoo1\<rparr>, n1)
                    else (Reply_json product, this1\<lparr>odoo := odoo1\<rparr>, n1))))"

record order_line =
  reference_code :: string
  qty :: real

text \<open>The \<^verbatim>\<open>for (const line of lines)\<close> loop of \<^verbatim>\<open>create_sale_order\<close>.\<close>

fun create_lines ::
  "'w transport \<Rightarrow> OdooClient \<Rightarrow> jsval \<Rightarrow> order_line list \<Rightarrow> 'w net \<Rightarrow>
     (js_error + unit) \<times> OdooClient \<times> 'w net" where
  "create_lines tr c orderId [] n = (Inr (), c, n)"
| "create_lines tr c orderId (line # lines) n =
     (case executeKw tr c (JStr ''product.product'') ''search_read''
             [JArr [JArr [JStr ''default_code'', JStr ''='', JStr (reference_code line)]]]
             (JObj [(''fields'', JArr [JStr ''id'']), (''limit'', JNum (Fin 1))]) n of
        (Inl e, c1, n1) \<Rightarrow> (Inl e, c1, n1)
      | (Inr r, c1, n1) \<Rightarrow>
          (case first_of r of
             Inl e \<Rightarrow> (Inl e, c1, n1)
           | Inr prod1 \<Rightarrow>
               if \<not> truthy prod1
               then (Inl (Error (''Product '' @ reference_code line @ '' missing'')), c1, n1)
               else (case get_prop prod1 ''id'' of
                       Inl e \<Rightarrow> (Inl e, c1, n1)
                     | Inr prod_id \<Rightarrow>
                         (case executeKw tr c1 (JStr ''sale.order.line'') ''create''
                                 [JObj [(''order_id'', orderId), (''product_id'', prod_id),
                                        (''product_uom_qty'', JNum (Fin (qty line)))]]
                                 (JObj []) n1 of
                            (Inl e, c2, n2) \<Rightarrow> (Inl e, c2, n2)
                          | (Inr u, c2, n2) \<Rightarrow> create_lines tr c2 orderId lines n2))))"

text \<open>The \<^verbatim>\<open>try\<close> block of \<^verbatim>\<open>create_sale_order\<close>, after \<^verbatim>\<open>getOdooClient\<close>.\<close>

definition create_sale_order_try ::
  "'w transport \<Rightarrow> OdooClient \<Rightarrow> string \<Rightarrow> bool \<Rightarrow> order_line list \<Rightarrow> 'w net \<Rightarrow>
     (js_error + jsval) \<times> OdooClient \<times> 'w net" where
  "create_sale_order_try tr odoo0 tax_id confirm lines n =
     (case executeKw tr odoo0 (JStr ''res.partner'') ''search_read''
             [JArr [JArr [JStr ''vat'', JStr ''='', JStr tax_id]]]
             (JObj [(''fields'', JArr [JStr ''id'']), (''limit'', JNum (Fin 1))]) n of
        (Inl e, c1, n1) \<Rightarrow> (Inl e, c1, n1)
      | (Inr r, c1, n1) \<Rightarrow>
          (case first_of r of
             Inl e \<Rightarrow> (Inl e, c1, n1)
           | Inr partner \<Rightarrow>
               if \<not> truthy partner then (Inl (Error ''Partner not found''), c1, n1)
               else (case get_prop partner ''id'' of
                       Inl e \<Rightarrow> (Inl e, c1, n1)
                     | Inr partner_id \<Rightarrow>
                         (case executeKw tr c1 (JStr ''sale.order'') ''create''
                                 [JObj [(''partner_id'', partner_id)]] (JObj []) n1 of
                            (Inl e, c2, n2) \<Rightarrow> (Inl e, c2, n2)
                          | (Inr orderId, c2, n2) \<Rightarrow>
                              (case create_lines tr c2 orderId lines n2 of
                                 (Inl e, c3, n3) \<Rightarrow> (Inl e, c3, n3)
                               | (Inr u, c3, n3) \<Rightarrow>
                                   (Inr (JObj [(''order_id'', orderId),
                                               (''confirmed'', JBool confirm)]), c3, n3))))))"

definition create_sale_order ::
  "(string \<Rightarrow> jsnum) \<Rightarrow> 'w transport \<Rightarrow> OdooMCP \<Rightarrow> string \<Rightarrow> bool \<Rightarrow> order_line list \<Rightarrow> 'w net \<Rightarrow>
     tool_reply \<times> OdooMCP \<times> 'w net" where
  "create_sale_order parseInt tr this tax_id confirm lines n =
     (case getOdooClient parseInt this of
        (this1, odoo0) \<Rightarrow>
          (case create_sale_order_try tr odoo0 tax_id confirm lines n of
             (Inl e, c, n') \<Rightarrow>
               (Reply_error ''Error al crear orden de venta: '' e, this1\<lparr>odoo := c\<rparr>, n')
           | (Inr result, c, n') \<Rightarrow> (Reply_json result, this1\<lparr>odoo := c\<rparr>, n')))"

subsection \<open>The resource handlers\<close>

text \<open>
  \<^verbatim>\<open>s.split("/")\<close>, and the element a destructuring pattern or \<^verbatim>\<open>pop()\<close>
  reads from the result: \<^verbatim>\<open>undefined\<close> beyond its end.
\<close>

fun split_slash :: "string \<Rightarrow> string list" where
  "split_slash [] = [[]]"
| "split_slash (c # cs) =
     (if c = CHR ''/'' then [] # split_slash cs
      else (case split_slash cs of
              [] \<Rightarrow> [[c]]
            | seg # segs \<Rightarrow> (c # seg) # segs))"

definition segment :: "string list \<Rightarrow> nat \<Rightarrow> jsval" where
  "segment segs i = (if i < length segs then JStr (segs ! i) else JUndefined)"

text \<open>\<^verbatim>\<open>String(v)\<close> for a path segment.\<close>

definition segment_text :: "jsval \<Rightarrow> string" where
  "segment_text v = (case v of JStr s \<Rightarrow> s | _ \<Rightarrow> ''undefined'')"

definition models_resource ::
  "'w transport \<Rightarrow> OdooMCP \<Rightarrow> 'w net \<Rightarrow> (js_error + jsval) \<times> OdooMCP \<times> 'w net" where
  "models_resource tr this n =
     (case executeKw tr (odoo this) (JStr ''ir.model'') ''search_read''
             [JArr [], JArr [JStr ''model'', JStr ''name'']] (JObj []) n of
        (r, c, n') \<Rightarrow> (r, this\<lparr>odoo := c\<rparr>, n'))"

definition model_resource ::
  "'w transport \<Rightarrow> OdooMCP \<Rightarrow> string \<Rightarrow> 'w net \<Rightarrow> (js_error + jsval) \<times> OdooMCP \<times> 'w net" where
  "model_resource tr this pathname n =
     (let model = JStr (last (split_slash pathname))
      in (case executeKw tr (odoo this) model ''fields_get''
                 [JArr [], JArr [JStr ''string'', JStr ''type'', JStr ''required'']] (JObj []) n of
            (r, c, n') \<Rightarrow> (r, this\<lparr>odoo := c\<rparr>, n')))"

definition record_resource ::
  "(jsval \<Rightarrow> jsnum) \<Rightarrow> 'w transport \<Rightarrow> OdooMCP \<Rightarrow> string \<Rightarrow> 'w net \<Rightarrow>
     (js_error + jsval) \<times> OdooMCP \<times> 'w net" where
  "record_resource to_number tr this pathname n =
     (let segs = split_slash pathname;
          model = segment segs 1;
          ident = segment segs 2
      in (case executeKw tr (odoo this) model ''read'' [JArr [JNum (to_number ident)]] (JObj []) n of
            (Inl e, c, n') \<Rightarrow> (Inl e, this\<lparr>odoo := c\<rparr>, n')
          | (Inr r, c, n') \<Rightarrow>
              (case first_of r of
                 Inl e \<Rightarrow> (Inl e, this\<lparr>odoo := c\<rparr>, n')
               | Inr rec \<Rightarrow> (Inr (if nullish rec then JObj [] else rec), this\<lparr>odoo := c\<rparr>, n'))))"

definition search_resource ::
  "(string \<Rightarrow> string option) \<Rightarrow> (string \<Rightarrow> jsval option) \<Rightarrow> 'w transport \<Rightarrow> OdooMCP \<Rightarrow>
     string \<Rightarrow> 'w net \<Rightarrow> (js_error + jsval) \<times> OdooMCP \<times> 'w net" where
  "search_resource decode parse tr this pathname n =
     (let segs = split_slash pathname;
          model = segment segs 1;
          domainStr = segment segs 2
      in (case decode (segment_text domainStr) of
            None \<Rightarrow> (Inl URIError, this, n)
          | Some decoded \<Rightarrow>
              (case JSON_parse parse decoded of
                 Inl e \<Rightarrow> (Inl e, this, n)
               | Inr domain \<Rightarrow>
                   (case executeKw tr (odoo this) model ''search_read'' [domain] (JObj []) n of
                      (r, c, n') \<Rightarrow> (r, this\<lparr>odoo := c\<rparr>, n')))))"

section \<open>Notions of the specification and example inputs\<close>

text \<open>
  The resolved Configuration Bundle of a request: what \<^verbatim>\<open>getConfigFromContext\<close> reads
  from the props \<^verbatim>\<open>fetch\<close> has injected.
\<close>

definition resolve ::
  "(string \<Rightarrow> jsnum) \<Rightarrow> (string \<Rightarrow> jsval option) \<Rightarrow> headers \<Rightarrow> Env \<Rightarrow>
     js_error + context_config" where
  "resolve parseInt parse hs env =
     (case fetch_props parse hs env of
        Inl e \<Rightarrow> Inl e
      | Inr (p, l) \<Rightarrow> Inr (getConfigFromContext parseInt p))"


text \<open>
  The rule the specification gives for the timeout and the optional fields: the header value,
  else the process-wide default value, else a fixed literal.
\<close>

definition spec_optional :: "string option \<Rightarrow> string option \<Rightarrow> string \<Rightarrow> string" where
  "spec_optional header setting literal = or_else header (or_else setting literal)"

text \<open>The text \<^verbatim>\<open>["a"]\<close>, an allow-list with the one name \<^verbatim>\<open>a\<close>.\<close>

definition example_list_text :: string where
  "example_list_text = [CHR ''['', CHR 0x22, CHR ''a'', CHR 0x22, CHR '']'']"

text \<open>\<^verbatim>\<open>JSON.parse\<close> on the texts the examples use.\<close>

definition example_parse :: "string \<Rightarrow> jsval option" where
  "example_parse s =
     (if s = ''42'' then Some (JNum (Fin 42))
      else if s = ''[]'' then Some (JArr [])
      else if s = example_list_text then Some (JArr [JStr ''a''])
      else None)"

text \<open>\<^verbatim>\<open>parseInt(s, 10)\<close> on the texts the examples use.\<close>

definition example_parseInt :: "string \<Rightarrow> jsnum" where
  "example_parseInt s =
     (if s = ''60000'' then Fin 60000
      else if s = ''5000'' then Fin 5000
      else NaN)"

definition example_headers :: headers where
  "example_headers =
     map_of [(''odoo-url'', ''https://x''), (''odoo-db'', ''d''),
             (''odoo-user'', ''u''), (''odoo-pass'', ''p'')]"

text \<open>A request without the \<^verbatim>\<open>odoo-pass\<close> header.\<close>

definition example_partial_headers :: headers where
  "example_partial_headers =
     map_of [(''odoo-url'', ''https://x''), (''odoo-db'', ''d''), (''odoo-user'', ''u''),
             (''odoo-timeout'', ''5000''), (''algolia-api-key'', ''HK''), (''to-use'', ''42'')]"

definition example_env :: Env where
  "example_env =
     \<lparr> ODOO_URL = Some ''https://erp.example'', ODOO_DB = Some ''main'',
       ODOO_USER = Some ''admin'', ODOO_PASS = Some ''secret'', ODOO_TIMEOUT = None,
       ALGOLIA_API_KEY = Some ''K'', ALGOLIA_APP_ID = None, ALGOLIA_INDEX_NAME = None,
       LABUREN_API_KEY = None, TO_USE = None \<rparr>"

definition example_props :: props where
  "example_props = header_props example_headers [''search_product_by_reference_code'']"



definition example_timeout_headers :: headers where
  "example_timeout_headers = example_headers(''odoo-timeout'' \<mapsto> ''abc'')"

definition example_timeout_env :: Env where
  "example_timeout_env = example_env\<lparr>ODOO_TIMEOUT := Some ''soon''\<rparr>"

text \<open>A request without the \<^verbatim>\<open>odoo-pass\<close> header whose \<^verbatim>\<open>odoo-timeout\<close>
  header holds no integer.\<close>

definition example_partial_timeout_headers :: headers where
  "example_partial_timeout_headers = example_partial_headers(''odoo-timeout'' \<mapsto> ''abc'')"



text \<open>The two envelopes of the client: the one \<^verbatim>\<open>login\<close> sends and the one
  \<^verbatim>\<open>executeKw\<close> sends after it.\<close>

definition login_envelope :: "OdooClient \<Rightarrow> rpc_request" where
  "login_envelope this =
     envelope this ''common'' ''login''
       [JStr (db (cfg this)), JStr (username (cfg this)), JStr (password (cfg this))]"

definition execute_envelope ::
  "OdooClient \<Rightarrow> jsval \<Rightarrow> string \<Rightarrow> jsval list \<Rightarrow> jsval \<Rightarrow> rpc_request" where
  "execute_envelope this model meth as kwargs =
     envelope this ''object'' ''execute_kw''
       [JStr (db (cfg this)), uid this, JStr (password (cfg this)),
        model, JStr meth, JArr as, kwargs]"

definition call_envelope :: "OdooClient \<Rightarrow> call \<Rightarrow> rpc_request" where
  "call_envelope this c =
     execute_envelope this (call_model c) (call_method c) (call_args c) (call_kwargs c)"

definition example_config :: OdooConfig where
  "example_config =
     \<lparr> baseUrl = ''https://x'', db = ''d'', username = ''u'', password = ''p'',
       timeout = Some (Fin 60000) \<rparr>"

definition example_net :: "unit net" where
  "example_net = \<lparr> world = (), sent = [] \<rparr>"

definition example_call :: call where
  "example_call =
     \<lparr> call_model = JStr ''res.partner'', call_method = ''read'',
       call_args = [JArr [JNum (Fin 1)]], call_kwargs = JObj [] \<rparr>"

text \<open>A backend that answers a login with the identity 7 and any other call with an empty list.\<close>

definition backend_ok :: "unit transport" where
  "backend_ok w r =
     (Response True 200 ''OK''
        (Some (JObj [(''result'', if service r = ''common'' then JNum (Fin 7) else JArr [])])), w)"

text \<open>A backend that answers every call, the login too, with the result \<^verbatim>\<open>null\<close>.\<close>

definition backend_no_identity :: "unit transport" where
  "backend_no_identity w r = (Response True 200 ''OK'' (Some (JObj [(''result'', JNull)])), w)"

text \<open>A backend that answers a login with \<^verbatim>\<open>false\<close>, as Odoo does for credentials it
  rejects, and any other call with an empty list.\<close>

definition backend_rejects_credentials :: "unit transport" where
  "backend_rejects_credentials w r =
     (Response True 200 ''OK''
        (Some (JObj [(''result'', if service r = ''common'' then JBool False else JArr [])])), w)"

text \<open>A backend that is not reachable.\<close>

definition backend_down :: "unit transport" where
  "backend_down w r = (Rejected ''connection refused'', w)"

text \<open>A backend that answers a login with the identity 7 and any other call with one record.\<close>

definition backend_record :: "unit transport" where
  "backend_record w r =
     (Response True 200 ''OK''
        (Some (JObj [(''result'', if service r = ''common'' then JNum (Fin 7)
                                  else JArr [JObj [(''id'', JNum (Fin 5))]])])), w)"

text \<open>A backend that answers a login with the identity 7 and any other call with a list whose
  only element is \<^verbatim>\<open>null\<close>.\<close>

definition backend_null_record :: "unit transport" where
  "backend_null_record w r =
     (Response True 200 ''OK''
        (Some (JObj [(''result'', if service r = ''common'' then JNum (Fin 7)
                                  else JArr [JNull])])), w)"

text \<open>\<^verbatim>\<open>Number\<close>, \<^verbatim>\<open>decodeURIComponent\<close> and \<^verbatim>\<open>JSON.parse\<close> on the
  texts the examples use.\<close>

definition example_number :: "jsval \<Rightarrow> jsnum" where
  "example_number v = (if v = JStr ''999999'' then Fin 999999 else NaN)"

definition example_decode :: "string \<Rightarrow> string option" where
  "example_decode s = (if s = ''%5B%5D'' then Some ''[]'' else if s = ''%'' then None else Some s)"

text \<open>The agent and the network after one invocation of the product search tool.\<close>

definition example_after_tool :: "tool_reply \<times> OdooMCP \<times> unit net" where
  "example_after_tool =
     search_product_by_reference_code example_parseInt backend_ok (init example_parseInt example_props) ''A'' example_net"

section \<open>The capability gate\<close>

text \<open>
  C1. For every props object, hence for every Configuration Bundle read from it,
  \<^verbatim>\<open>shouldIgnoreTool(n)\<close> returns false exactly when the bundle's list of enabled
  operations is empty or contains \<open>n\<close>; a tool that \<^verbatim>\<open>init\<close> has registered is never
  one the gate ignores, and the registered tools are exactly the admitted ones among the two
  tools of the agent.
\<close>

theorem gate_admits:
  "(\<not> shouldIgnoreTool parseInt p n) =
     (cfg_toolsToUse (getConfigFromContext parseInt p) = [] \<or>
      n \<in> set (cfg_toolsToUse (getConfigFromContext parseInt p))) \<and>
   (n \<in> set (tools (init parseInt p)) \<longrightarrow> \<not> shouldIgnoreTool parseInt p n) \<and>
   set (tools (init parseInt p)) =
     {t \<in> {''search_product_by_reference_code'', ''create_sale_order''}. \<not> shouldIgnoreTool parseInt p t}"
  by (auto simp: shouldIgnoreTool_def getConfigFromContext_def init_def Let_def)

theorem gate_admits_witness:
  "''search_product_by_reference_code'' \<in> set (tools (init example_parseInt example_props)) \<and>
   \<not> shouldIgnoreTool example_parseInt example_props ''search_product_by_reference_code'' \<and>
   shouldIgnoreTool example_parseInt example_props ''create_sale_order'' \<and>
   tools (init example_parseInt example_props) = [''search_product_by_reference_code'']"
proof -
  have enabled: "cfg_toolsToUse (getConfigFromContext example_parseInt example_props) =
      [''search_product_by_reference_code'']"
    by (simp add: getConfigFromContext_def example_props_def header_props_def)
  have registered: "tools (init example_parseInt example_props) = [''search_product_by_reference_code'']"
    by (simp add: init_def shouldIgnoreTool_def enabled)
  have "(\<not> shouldIgnoreTool example_parseInt example_props ''create_sale_order'') =
      (cfg_toolsToUse (getConfigFromContext example_parseInt example_props) = [] \<or>
       ''create_sale_order'' \<in> set (cfg_toolsToUse (getConfigFromContext example_parseInt example_props)))"
    using gate_admits [of example_parseInt example_props "''create_sale_order''"] by (rule conjunct1)
  then have ignored: "shouldIgnoreTool example_parseInt example_props ''create_sale_order''"
    by (simp add: enabled)
  have "''search_product_by_reference_code'' \<in> set (tools (init example_parseInt example_props)) \<longrightarrow>
      \<not> shouldIgnoreTool example_parseInt example_props ''search_product_by_reference_code''"
    using gate_admits [of example_parseInt example_props "''search_product_by_reference_code''"] by blast
  then have "\<not> shouldIgnoreTool example_parseInt example_props ''search_product_by_reference_code''"
    by (simp add: registered)
  with ignored registered show ?thesis by simp
qed

section \<open>The request configuration resolver\<close>

lemma header_toolsToUse_total: "\<exists>ts l. header_toolsToUse parse h = Inr (ts, l)"
  by (auto simp: header_toolsToUse_def to_use_try_def split: option.splits sum.splits)

lemma env_toolsToUse_total: "\<exists>ts l. env_toolsToUse parse h = Inr (ts, l)"
  by (auto simp: env_toolsToUse_def TO_USE_try_def split: option.splits sum.splits)

text \<open>No exception escapes \<^verbatim>\<open>fetch\<close> before the context is built.\<close>

lemma fetch_props_eq:
  "fetch_props parse hs env =
     Inr (if mandatory_missing hs
          then (env_props env (fst (projr (env_toolsToUse parse (TO_USE env)))),
                snd (projr (header_toolsToUse parse (hs ''to-use''))) @
                snd (projr (env_toolsToUse parse (TO_USE env))) @
                [Log_env_fallback,
                 Log_env_injected (or_else (ODOO_URL env) ''https://tu-odoo-instance.com''),
                 tools_log (fst (projr (env_toolsToUse parse (TO_USE env))))])
          else (header_props hs (fst (projr (header_toolsToUse parse (hs ''to-use'')))),
                snd (projr (header_toolsToUse parse (hs ''to-use''))) @
                snd (projr (env_toolsToUse parse (TO_USE env))) @
                [Log_headers_injected,
                 tools_log (fst (projr (header_toolsToUse parse (hs ''to-use''))))]))"
proof -
  obtain ts l where h: "header_toolsToUse parse (hs ''to-use'') = Inr (ts, l)"
    using header_toolsToUse_total by blast
  obtain ts' l' where e: "env_toolsToUse parse (TO_USE env) = Inr (ts', l')"
    using env_toolsToUse_total by blast
  show ?thesis by (simp add: fetch_props_def h e)
qed

lemma or_else_truthy: "\<not> falsy h \<Longrightarrow> Some (or_else h d) = h"
  by (auto simp: or_else_def falsy_def split: option.splits)

lemma example_headers_complete: "\<not> mandatory_missing example_headers"
  by (simp add: mandatory_missing_def example_headers_def falsy_def)

lemma example_partial_headers_missing: "mandatory_missing example_partial_headers"
  by (simp add: mandatory_missing_def example_partial_headers_def falsy_def)

text \<open>
  C4. A mandatory header is present when the guard of \<^verbatim>\<open>fetch\<close> finds it truthy (set
  and not empty). When all four are present, the four backend fields of the resolved bundle are
  the header values, whatever the process-wide settings are. When one is missing, each backend
  field is the process-wide default of that field, whatever the headers are: the setting itself
  when it is set and not empty, its placeholder literal otherwise.
\<close>

theorem backend_fields_all_or_nothing:
  "\<exists>p l. fetch_props parse hs env = Inr (p, l) \<and>
     (\<not> mandatory_missing hs \<longrightarrow>
        Some (baseUrl (odooConfig (getConfigFromContext parseInt p))) = hs ''odoo-url'' \<and>
        Some (db (odooConfig (getConfigFromContext parseInt p))) = hs ''odoo-db'' \<and>
        Some (username (odooConfig (getConfigFromContext parseInt p))) = hs ''odoo-user'' \<and>
        Some (password (odooConfig (getConfigFromContext parseInt p))) = hs ''odoo-pass'') \<and>
     (mandatory_missing hs \<longrightarrow>
        baseUrl (odooConfig (getConfigFromContext parseInt p)) =
          or_else (ODOO_URL env) ''https://tu-odoo-instance.com'' \<and>
        db (odooConfig (getConfigFromContext parseInt p)) = or_else (ODOO_DB env) ''tu_database'' \<and>
        username (odooConfig (getConfigFromContext parseInt p)) =
          or_else (ODOO_USER env) ''usuario@ejemplo.com'' \<and>
        password (odooConfig (getConfigFromContext parseInt p)) = or_else (ODOO_PASS env) ''tu_password'')"
proof (cases "mandatory_missing hs")
  case True
  then show ?thesis
    by (simp add: fetch_props_eq getConfigFromContext_def env_props_def or_else_def)
next
  case False
  then have "\<not> falsy (hs ''odoo-url'')" "\<not> falsy (hs ''odoo-db'')"
    "\<not> falsy (hs ''odoo-user'')" "\<not> falsy (hs ''odoo-pass'')"
    by (simp_all add: mandatory_missing_def)
  with False show ?thesis
    by (simp add: fetch_props_eq getConfigFromContext_def header_props_def or_else_truthy)
qed

theorem backend_fields_witness:
  "\<not> mandatory_missing example_headers \<and>
   (\<exists>p l. fetch_props example_parse example_headers example_env = Inr (p, l) \<and>
      baseUrl (odooConfig (getConfigFromContext example_parseInt p)) = ''https://x'' \<and>
      db (odooConfig (getConfigFromContext example_parseInt p)) = ''d'' \<and>
      username (odooConfig (getConfigFromContext example_parseInt p)) = ''u'' \<and>
      password (odooConfig (getConfigFromContext example_parseInt p)) = ''p'') \<and>
   mandatory_missing example_partial_headers \<and>
   (\<exists>p l. fetch_props example_parse example_partial_headers example_env = Inr (p, l) \<and>
      baseUrl (odooConfig (getConfigFromContext example_parseInt p)) = ''https://erp.example'' \<and>
      db (odooConfig (getConfigFromContext example_parseInt p)) = ''main'' \<and>
      username (odooConfig (getConfigFromContext example_parseInt p)) = ''admin'' \<and>
      password (odooConfig (getConfigFromContext example_parseInt p)) = ''secret'')"
  using example_headers_complete example_partial_headers_missing
    backend_fields_all_or_nothing [of example_parse example_headers example_env example_parseInt]
    backend_fields_all_or_nothing [of example_parse example_partial_headers example_env example_parseInt]
  by (simp add: example_headers_def example_env_def or_else_def)









lemma example_parseInt_60000: "example_parseInt ''60000'' = Fin 60000"
  by (simp add: example_parseInt_def)

lemma example_parseInt_5000: "example_parseInt ''5000'' = Fin 5000"
  by (simp add: example_parseInt_def)

lemma example_parseInt_abc: "example_parseInt ''abc'' = NaN"
  by (simp add: example_parseInt_def)

lemma example_parseInt_soon: "example_parseInt ''soon'' = NaN"
  by (simp add: example_parseInt_def)

text \<open>
  C6, as stated, fails. With the four mandatory headers present and no
  \<^verbatim>\<open>algolia-api-key\<close> header, the resolved search key is the literal \<open>''''\<close> although
  the process-wide setting is \<open>''K''\<close>; with a mandatory header missing, the resolved timeout
  is 60000 although the \<^verbatim>\<open>odoo-timeout\<close> header says 5000. In both cases the rule of the
  specification gives the other value.
\<close>

theorem optional_fields_counterexample:
  "map_sum id (apiKey \<circ> algoliaConfig) (resolve example_parseInt example_parse example_headers example_env) =
     Inr '''' \<and>
   spec_optional (example_headers ''algolia-api-key'') (ALGOLIA_API_KEY example_env) '''' = ''K'' \<and>
   map_sum id (timeout \<circ> odooConfig)
     (resolve example_parseInt example_parse example_partial_headers example_env) = Inr (Some (Fin 60000)) \<and>
   example_parseInt (spec_optional (example_partial_headers ''odoo-timeout'') (ODOO_TIMEOUT example_env)
     ''60000'') = Fin 5000"
proof -
  have hv: "example_headers ''algolia-api-key'' = None"
    "example_partial_headers ''odoo-timeout'' = Some ''5000''"
    by (simp_all add: example_headers_def example_partial_headers_def)
  have ev: "ALGOLIA_API_KEY example_env = Some ''K''" "ODOO_TIMEOUT example_env = None"
    by (simp_all add: example_env_def)
  have a: "map_sum id (apiKey \<circ> algoliaConfig)
      (resolve example_parseInt example_parse example_headers example_env) = Inr ''''"
    by (simp add: resolve_def fetch_props_eq example_headers_complete getConfigFromContext_def
        header_props_def hv or_else_def)
  have b: "map_sum id (timeout \<circ> odooConfig)
      (resolve example_parseInt example_parse example_partial_headers example_env) = Inr (Some (Fin 60000))"
    by (simp add: resolve_def fetch_props_eq example_partial_headers_missing
        getConfigFromContext_def env_props_def ev or_else_def example_parseInt_60000)
  have c: "spec_optional (example_headers ''algolia-api-key'') (ALGOLIA_API_KEY example_env) '''' =
      ''K''"
    by (simp add: spec_optional_def hv ev or_else_def)
  have d: "example_parseInt (spec_optional (example_partial_headers ''odoo-timeout'')
      (ODOO_TIMEOUT example_env) ''60000'') = Fin 5000"
    by (simp add: spec_optional_def hv ev or_else_def example_parseInt_5000)
  from a b c d show ?thesis by simp
qed

text \<open>
  C6, amended. The timeout and the optional fields come from the source that supplies the
  mandatory backend fields. When the four mandatory headers are present, each is the value of
  its header when that header is set and not empty, and a fixed literal otherwise; the
  process-wide settings are not read. When a mandatory header is missing, each is the
  process-wide setting when it is set and not empty, and the same literal otherwise; the headers
  are not read. The literal is \<open>''60000''\<close> for the timeout, which \<^verbatim>\<open>parseInt\<close> then
  reads, and the empty string for the others.
\<close>

theorem optional_fields_follow_branch:
  "\<exists>p l. fetch_props parse hs env = Inr (p, l) \<and>
     (\<not> mandatory_missing hs \<longrightarrow>
        timeout (odooConfig (getConfigFromContext parseInt p)) =
          Some (parseInt (or_else (hs ''odoo-timeout'') ''60000'')) \<and>
        apiKey (algoliaConfig (getConfigFromContext parseInt p)) = or_else (hs ''algolia-api-key'') '''' \<and>
        appId (algoliaConfig (getConfigFromContext parseInt p)) = or_else (hs ''algolia-app-id'') '''' \<and>
        indexName (algoliaConfig (getConfigFromContext parseInt p)) =
          or_else (hs ''algolia-index-name'') '''' \<and>
        cfg_laburenApiKey (getConfigFromContext parseInt p) = or_else (hs ''laburen-api-key'') '''') \<and>
     (mandatory_missing hs \<longrightarrow>
        timeout (odooConfig (getConfigFromContext parseInt p)) =
          Some (parseInt (or_else (ODOO_TIMEOUT env) ''60000'')) \<and>
        apiKey (algoliaConfig (getConfigFromContext parseInt p)) = or_else (ALGOLIA_API_KEY env) '''' \<and>
        appId (algoliaConfig (getConfigFromContext parseInt p)) = or_else (ALGOLIA_APP_ID env) '''' \<and>
        indexName (algoliaConfig (getConfigFromContext parseInt p)) =
          or_else (ALGOLIA_INDEX_NAME env) '''' \<and>
        cfg_laburenApiKey (getConfigFromContext parseInt p) = or_else (LABUREN_API_KEY env) '''')"
  by (simp add: fetch_props_eq getConfigFromContext_def env_props_def header_props_def or_else_def
      split: option.splits)

theorem optional_fields_witness:
  "\<not> mandatory_missing example_headers \<and>
   (\<exists>p l. fetch_props example_parse example_headers example_env = Inr (p, l) \<and>
      timeout (odooConfig (getConfigFromContext example_parseInt p)) = Some (Fin 60000) \<and>
      apiKey (algoliaConfig (getConfigFromContext example_parseInt p)) = '''') \<and>
   mandatory_missing example_partial_headers \<and>
   (\<exists>p l. fetch_props example_parse example_partial_headers example_env = Inr (p, l) \<and>
      timeout (odooConfig (getConfigFromContext example_parseInt p)) = Some (Fin 60000) \<and>
      apiKey (algoliaConfig (getConfigFromContext example_parseInt p)) = ''K'')"
proof -
  obtain p l where 1: "fetch_props example_parse example_headers example_env = Inr (p, l)"
    "timeout (odooConfig (getConfigFromContext example_parseInt p)) =
       Some (example_parseInt (or_else (example_headers ''odoo-timeout'') ''60000''))"
    "apiKey (algoliaConfig (getConfigFromContext example_parseInt p)) =
       or_else (example_headers ''algolia-api-key'') ''''"
    using optional_fields_follow_branch [of example_parse example_headers example_env example_parseInt]
      example_headers_complete
    by blast
  have a: "\<exists>p l. fetch_props example_parse example_headers example_env = Inr (p, l) \<and>
      timeout (odooConfig (getConfigFromContext example_parseInt p)) = Some (Fin 60000) \<and>
      apiKey (algoliaConfig (getConfigFromContext example_parseInt p)) = ''''"
    using 1 by (simp add: example_headers_def or_else_def example_parseInt_60000)
  obtain p' l' where 2:
    "fetch_props example_parse example_partial_headers example_env = Inr (p', l')"
    "timeout (odooConfig (getConfigFromContext example_parseInt p')) =
       Some (example_parseInt (or_else (ODOO_TIMEOUT example_env) ''60000''))"
    "apiKey (algoliaConfig (getConfigFromContext example_parseInt p')) =
       or_else (ALGOLIA_API_KEY example_env) ''''"
    using optional_fields_follow_branch [of example_parse example_partial_headers example_env example_parseInt]
      example_partial_headers_missing
    by blast
  have b: "\<exists>p l. fetch_props example_parse example_partial_headers example_env = Inr (p, l) \<and>
      timeout (odooConfig (getConfigFromContext example_parseInt p)) = Some (Fin 60000) \<and>
      apiKey (algoliaConfig (getConfigFromContext example_parseInt p)) = ''K''"
    using 2 by (simp add: example_env_def or_else_def example_parseInt_60000)
  from a b example_headers_complete example_partial_headers_missing show ?thesis by blast
qed

lemma jsonRpc_sent:
  "sent (snd (jsonRpc tr this srv meth as n)) = sent n @ [envelope this srv meth as]"
  by (simp add: jsonRpc_def Let_def split: prod.splits response.splits option.splits sum.splits)

lemma example_partial_timeout_headers_missing:
  "mandatory_missing example_partial_timeout_headers"
  by (simp add: mandatory_missing_def example_partial_timeout_headers_def
      example_partial_headers_def falsy_def)

text \<open>
  C10, as stated, fails. A request without the \<^verbatim>\<open>odoo-pass\<close> header whose
  \<^verbatim>\<open>odoo-timeout\<close> header is \<^verbatim>\<open>abc\<close> is resolved from the settings: its
  timeout header is not read and, with no \<^verbatim>\<open>ODOO_TIMEOUT\<close> setting, the timeout is
  60000. A request with the four mandatory headers and no timeout header, under the setting
  \<^verbatim>\<open>ODOO_TIMEOUT=soon\<close>, does not read the setting and its timeout is 60000 too.
\<close>

theorem ignored_timeout_counterexample:
  "example_partial_timeout_headers ''odoo-timeout'' = Some ''abc'' \<and>
   example_parseInt ''abc'' = NaN \<and>
   map_sum id (timeout \<circ> odooConfig)
     (resolve example_parseInt example_parse example_partial_timeout_headers example_env) =
     Inr (Some (Fin 60000)) \<and>
   ODOO_TIMEOUT example_timeout_env = Some ''soon'' \<and>
   example_parseInt ''soon'' = NaN \<and>
   map_sum id (timeout \<circ> odooConfig)
     (resolve example_parseInt example_parse example_headers example_timeout_env) =
     Inr (Some (Fin 60000))"
proof -
  have h: "example_partial_timeout_headers ''odoo-timeout'' = Some ''abc''"
    "example_headers ''odoo-timeout'' = None"
    by (simp_all add: example_partial_timeout_headers_def example_headers_def)
  have e: "ODOO_TIMEOUT example_env = None" "ODOO_TIMEOUT example_timeout_env = Some ''soon''"
    by (simp_all add: example_env_def example_timeout_env_def)
  have a: "map_sum id (timeout \<circ> odooConfig)
      (resolve example_parseInt example_parse example_partial_timeout_headers example_env) =
      Inr (Some (Fin 60000))"
    by (simp add: resolve_def fetch_props_eq example_partial_timeout_headers_missing
        getConfigFromContext_def env_props_def e or_else_def example_parseInt_60000)
  have b: "map_sum id (timeout \<circ> odooConfig)
      (resolve example_parseInt example_parse example_headers example_timeout_env) =
      Inr (Some (Fin 60000))"
    by (simp add: resolve_def fetch_props_eq example_headers_complete
        getConfigFromContext_def header_props_def h or_else_def example_parseInt_60000)
  from a b h e example_parseInt_abc example_parseInt_soon show ?thesis by simp
qed

text \<open>
  C10, amended. The timeout text a request is resolved from is the \<^verbatim>\<open>odoo-timeout\<close>
  header when the four mandatory headers are present and the \<^verbatim>\<open>ODOO_TIMEOUT\<close> setting
  otherwise. When that text is set, not empty, and \<^verbatim>\<open>parseInt\<close> returns \<open>NaN\<close> for
  it, the timeout of the resolved bundle is \<open>NaN\<close>; the constructor puts its 60000 only where
  the configuration has no timeout and keeps any timeout it is given, so the client holds
  \<open>NaN\<close>; and every request \<^verbatim>\<open>jsonRpc\<close> sends for a client built from that bundle,
  whatever its session identity, carries \<open>NaN\<close> as its timeout.
\<close>

theorem unparseable_timeout_is_NaN:
  assumes "(\<not> mandatory_missing hs \<and> hs ''odoo-timeout'' = Some s) \<or>
           (mandatory_missing hs \<and> ODOO_TIMEOUT env = Some s)"
    and "s \<noteq> []" and "parseInt s = NaN"
  shows "(\<exists>p l. fetch_props parse hs env = Inr (p, l) \<and>
           timeout (odooConfig (getConfigFromContext parseInt p)) = Some NaN \<and>
           timeout (cfg (new_OdooClient (odooConfig (getConfigFromContext parseInt p)))) = Some NaN \<and>
           sent (snd (jsonRpc tr (new_OdooClient (odooConfig (getConfigFromContext parseInt p))\<lparr>uid := u\<rparr>)
                        srv meth as n)) =
             sent n @ [\<lparr> url = baseUrl (odooConfig (getConfigFromContext parseInt p)) @ ''/jsonrpc'',
                          service = srv, rpc_method = meth, args = as,
                          cf_timeout = Some NaN \<rparr>]) \<and>
         timeout (cfg (new_OdooClient c)) =
           (case timeout c of None \<Rightarrow> Some (Fin 60000) | Some t \<Rightarrow> Some t)"
proof -
  have spread: "timeout (cfg (new_OdooClient c)) =
      (case timeout c of None \<Rightarrow> Some (Fin 60000) | Some t \<Rightarrow> Some t)"
    by (simp add: new_OdooClient_def split: option.splits)
  have "\<exists>p l. fetch_props parse hs env = Inr (p, l) \<and>
           timeout (odooConfig (getConfigFromContext parseInt p)) = Some NaN \<and>
           timeout (cfg (new_OdooClient (odooConfig (getConfigFromContext parseInt p)))) = Some NaN \<and>
           sent (snd (jsonRpc tr (new_OdooClient (odooConfig (getConfigFromContext parseInt p))\<lparr>uid := u\<rparr>)
                        srv meth as n)) =
             sent n @ [\<lparr> url = baseUrl (odooConfig (getConfigFromContext parseInt p)) @ ''/jsonrpc'',
                          service = srv, rpc_method = meth, args = as,
                          cf_timeout = Some NaN \<rparr>]"
    using assms
    by (auto simp: fetch_props_eq getConfigFromContext_def env_props_def header_props_def
        or_else_def new_OdooClient_def jsonRpc_sent envelope_def)
  with spread show ?thesis by blast
qed

theorem unparseable_timeout_witness:
  "\<not> mandatory_missing example_timeout_headers \<and>
   example_timeout_headers ''odoo-timeout'' = Some ''abc'' \<and> example_parseInt ''abc'' = NaN \<and>
   (\<exists>p l. fetch_props example_parse example_timeout_headers example_env = Inr (p, l) \<and>
      timeout (cfg (new_OdooClient (odooConfig (getConfigFromContext example_parseInt p)))) = Some NaN) \<and>
   mandatory_missing example_partial_headers \<and>
   ODOO_TIMEOUT example_timeout_env = Some ''soon'' \<and> example_parseInt ''soon'' = NaN \<and>
   (\<exists>p l. fetch_props example_parse example_partial_headers example_timeout_env = Inr (p, l) \<and>
      timeout (cfg (new_OdooClient (odooConfig (getConfigFromContext example_parseInt p)))) = Some NaN)"
proof -
  have c: "\<not> mandatory_missing example_timeout_headers"
    by (simp add: mandatory_missing_def example_timeout_headers_def example_headers_def falsy_def)
  have h: "example_timeout_headers ''odoo-timeout'' = Some ''abc''"
    by (simp add: example_timeout_headers_def)
  have e: "ODOO_TIMEOUT example_timeout_env = Some ''soon''"
    by (simp add: example_timeout_env_def)
  have a: "\<exists>p l. fetch_props example_parse example_timeout_headers example_env = Inr (p, l) \<and>
      timeout (cfg (new_OdooClient (odooConfig (getConfigFromContext example_parseInt p)))) = Some NaN"
    using unparseable_timeout_is_NaN [where hs = example_timeout_headers and s = "''abc''"
        and env = example_env and parseInt = example_parseInt and parse = example_parse] c h example_parseInt_abc
    by blast
  have b: "\<exists>p l. fetch_props example_parse example_partial_headers example_timeout_env =
      Inr (p, l) \<and> timeout (cfg (new_OdooClient (odooConfig (getConfigFromContext example_parseInt p)))) = Some NaN"
    using unparseable_timeout_is_NaN [where hs = example_partial_headers and s = "''soon''"
        and env = example_timeout_env and parseInt = example_parseInt and parse = example_parse] example_partial_headers_missing e example_parseInt_soon
    by blast
  from a b c h e example_parseInt_abc example_parseInt_soon example_partial_headers_missing
  show ?thesis by blast
qed


section \<open>The remote procedure client\<close>

lemma jsonRpc_sentD:
  "jsonRpc tr this srv meth as n = (r, n') \<Longrightarrow> sent n' = sent n @ [envelope this srv meth as]"
  using jsonRpc_sent [of tr this srv meth as n] by simp

lemma login_cached: "\<not> nullish (uid this) \<Longrightarrow> login tr this n = (Inr (), this, n)"
  by (simp add: login_def)

lemma login_sent:
  "login tr this n = (r, this', n') \<Longrightarrow>
     sent n' = sent n @ (if nullish (uid this) then [login_envelope this] else []) \<and>
     cfg this' = cfg this"
  by (auto simp: login_def login_envelope_def dest: jsonRpc_sentD
      split: if_splits prod.splits sum.splits)

lemma executeKw_cached:
  "\<not> nullish (uid this) \<Longrightarrow>
     executeKw tr this m meth as kw n =
       (fst (jsonRpc tr this ''object'' ''execute_kw''
               [JStr (db (cfg this)), uid this, JStr (password (cfg this)),
                m, JStr meth, JArr as, kw] n),
        this,
        snd (jsonRpc tr this ''object'' ''execute_kw''
               [JStr (db (cfg this)), uid this, JStr (password (cfg this)),
                m, JStr meth, JArr as, kw] n))"
  by (simp add: executeKw_def login_cached split: prod.splits)

lemma executeKw_cached_sent:
  assumes "\<not> nullish (uid this)"
  shows "fst (snd (executeKw tr this m meth as kw n)) = this"
    and "sent (snd (snd (executeKw tr this m meth as kw n))) =
           sent n @ [execute_envelope this m meth as kw]"
  using assms by (simp_all add: executeKw_cached jsonRpc_sent execute_envelope_def)

lemma run_calls_cached:
  "\<not> nullish (uid this) \<Longrightarrow>
     fst (run_calls tr this cs n) = this \<and>
     sent (snd (run_calls tr this cs n)) = sent n @ map (call_envelope this) cs"
proof (induction cs arbitrary: n)
  case Nil
  then show ?case by simp
next
  case (Cons c cs)
  obtain r this' n' where
    e: "executeKw tr this (call_model c) (call_method c) (call_args c) (call_kwargs c) n =
          (r, this', n')"
    by (cases "executeKw tr this (call_model c) (call_method c) (call_args c) (call_kwargs c) n")
  from Cons.prems have "this' = this" "sent n' = sent n @ [call_envelope this c]"
    using executeKw_cached_sent [of this tr "call_model c" "call_method c" "call_args c"
        "call_kwargs c" n]
    by (simp_all add: e call_envelope_def)
  with Cons show ?case by (simp add: e)
qed

lemma is_login_envelopes [simp]:
  "is_login (login_envelope this)" "\<not> is_login (execute_envelope this m meth as kw)"
  "\<not> is_login (call_envelope this c)"
  "is_execute (execute_envelope this m meth as kw)" "\<not> is_execute (login_envelope this)"
  by (simp_all add: is_login_def is_execute_def login_envelope_def execute_envelope_def
      call_envelope_def envelope_def)

lemma filter_login_calls [simp]: "filter is_login (map (call_envelope this) cs) = []"
  by (induction cs) simp_all

text \<open>One call run alone, step after step, is \<^verbatim>\<open>executeKw\<close>.\<close>

lemma single_task_is_executeKw:
  "run_schedule tr this [Start c] [0, 0, 0] n =
     (case executeKw tr this (call_model c) (call_method c) (call_args c) (call_kwargs c) n of
        (r, this', n') \<Rightarrow> ([Returned r], this', n'))"
  by (simp add: step_task_def executeKw_def login_def split: prod.splits sum.splits)

text \<open>
  C2, as stated, fails for calls in flight together. Two calls are made on a new client and the
  second starts while the first is suspended on its login: it finds no identity yet and sends a
  login envelope of its own. The login of the first call succeeds with the identity 7, both calls
  return a result, and two login envelopes have been sent.
\<close>

theorem overlapping_calls_counterexample:
  "fst (run_schedule backend_ok (new_OdooClient example_config)
     [Start example_call, Start example_call] [0] example_net) =
     [Login_sent example_call (Inr (JNum (Fin 7))), Start example_call] \<and>
   map service (sent (snd (snd (run_schedule backend_ok (new_OdooClient example_config)
     [Start example_call, Start example_call] [0, 1, 0, 1, 0, 1] example_net)))) =
     [''common'', ''common'', ''object'', ''object''] \<and>
   length (filter is_login (sent (snd (snd (run_schedule backend_ok
     (new_OdooClient example_config) [Start example_call, Start example_call]
     [0, 1, 0, 1, 0, 1] example_net))))) = 2 \<and>
   fst (run_schedule backend_ok (new_OdooClient example_config)
     [Start example_call, Start example_call] [0, 1, 0, 1, 0, 1] example_net) =
     [Returned (Inr (JArr [])), Returned (Inr (JArr []))]"
  by (simp add: step_task_def login_def jsonRpc_def backend_ok_def new_OdooClient_def
      example_config_def example_net_def example_call_def envelope_def is_login_def Let_def)

text \<open>
  C2, amended. The constructor is a function of the configuration alone (it has no access to the
  transport), and the client it returns has no session identity; as long as no call is made on
  it, nothing is sent. In a sequence of calls on one instance in which each call is awaited
  before the next is made, when the login of the first call returns an identity (a result that
  is neither \<^verbatim>\<open>null\<close> nor \<^verbatim>\<open>undefined\<close>), the requests the whole sequence
  sends are that one login envelope followed by one execute envelope per call, each carrying the
  stored identity: exactly one login envelope is sent, however many calls follow and whether or
  not they fail.
\<close>

theorem one_login_per_client:
  "uid (new_OdooClient c) = JNull \<and>
   run_calls tr (new_OdooClient c) [] n = (new_OdooClient c, n) \<and>
   (login tr (new_OdooClient c) n = (Inr (), this1, n1) \<and> \<not> nullish (uid this1) \<longrightarrow>
      sent (snd (run_calls tr (new_OdooClient c) (k # ks) n)) =
        sent n @ login_envelope (new_OdooClient c) # map (call_envelope this1) (k # ks) \<and>
      length (filter is_login (sent (snd (run_calls tr (new_OdooClient c) (k # ks) n)))) =
        length (filter is_login (sent n)) + 1)"
proof -
  have unset: "uid (new_OdooClient c) = JNull"
    by (simp add: new_OdooClient_def)
  have "sent (snd (run_calls tr (new_OdooClient c) (k # ks) n)) =
        sent n @ login_envelope (new_OdooClient c) # map (call_envelope this1) (k # ks)"
    if l: "login tr (new_OdooClient c) n = (Inr (), this1, n1)" and u: "\<not> nullish (uid this1)"
  proof -
    have s1: "sent n1 = sent n @ [login_envelope (new_OdooClient c)]"
      using login_sent [OF l] unset by simp
    obtain r n2 where j: "jsonRpc tr this1 ''object'' ''execute_kw''
        [JStr (db (cfg this1)), uid this1, JStr (password (cfg this1)),
         call_model k, JStr (call_method k), JArr (call_args k), call_kwargs k] n1 = (r, n2)"
      by (cases "jsonRpc tr this1 ''object'' ''execute_kw''
        [JStr (db (cfg this1)), uid this1, JStr (password (cfg this1)),
         call_model k, JStr (call_method k), JArr (call_args k), call_kwargs k] n1")
    have s2: "sent n2 = sent n1 @ [call_envelope this1 k]"
      using jsonRpc_sentD [OF j] by (simp add: call_envelope_def execute_envelope_def)
    have "run_calls tr (new_OdooClient c) (k # ks) n = run_calls tr this1 ks n2"
      by (simp add: executeKw_def l j)
    then show ?thesis
      using run_calls_cached [OF u, of tr ks n2] s1 s2 by simp
  qed
  then show ?thesis using unset by simp
qed

lemma example_login_ok:
  "login backend_ok (new_OdooClient example_config) example_net =
     (Inr (), (new_OdooClient example_config)\<lparr>uid := JNum (Fin 7)\<rparr>,
      \<lparr> world = (), sent = [login_envelope (new_OdooClient example_config)] \<rparr>)"
  by (simp add: login_def jsonRpc_def backend_ok_def new_OdooClient_def example_config_def
      example_net_def login_envelope_def envelope_def)

theorem one_login_witness:
  "login backend_ok (new_OdooClient example_config) example_net =
     (Inr (), (new_OdooClient example_config)\<lparr>uid := JNum (Fin 7)\<rparr>,
      \<lparr> world = (), sent = [login_envelope (new_OdooClient example_config)] \<rparr>) \<and>
   \<not> nullish (uid ((new_OdooClient example_config)\<lparr>uid := JNum (Fin 7)\<rparr>)) \<and>
   length (filter is_login (sent (snd (run_calls backend_ok (new_OdooClient example_config)
     [example_call, example_call, example_call] example_net)))) = 1"
proof -
  have u: "\<not> nullish (uid ((new_OdooClient example_config)\<lparr>uid := JNum (Fin 7)\<rparr>))"
    by simp
  have "length (filter is_login (sent (snd (run_calls backend_ok (new_OdooClient example_config)
      [example_call, example_call, example_call] example_net)))) =
      length (filter is_login (sent example_net)) + 1"
    using one_login_per_client [of example_config backend_ok example_net
        "(new_OdooClient example_config)\<lparr>uid := JNum (Fin 7)\<rparr>"
        "\<lparr> world = (), sent = [login_envelope (new_OdooClient example_config)] \<rparr>"
        example_call "[example_call, example_call]"]
      example_login_ok u
    by blast
  then show ?thesis using example_login_ok u by (simp add: example_net_def)
qed

lemma executeKw_fresh_first:
  assumes "nullish (uid this)"
  shows "\<exists>rest. sent (snd (snd (executeKw tr this m meth as kw n))) =
           sent n @ login_envelope this # rest"
proof -
  obtain r this' n' where l: "login tr this n = (r, this', n')"
    by (cases "login tr this n")
  then have s: "sent n' = sent n @ [login_envelope this]"
    using login_sent [OF l] assms by simp
  show ?thesis
  proof (cases r)
    case (Inl e)
    with l s show ?thesis by (simp add: executeKw_def)
  next
    case (Inr u)
    with l s show ?thesis
      by (auto simp: executeKw_def split: prod.splits dest: jsonRpc_sentD)
  qed
qed

text \<open>
  C3, amended. On a client without session identity, when the login round trip throws, the call
  fails with that very error (the client has no separate authentication error), the login
  envelope is the only request sent, the client is unchanged, and the next call on it starts with
  a login envelope again. When the login round trip returns, whatever its result is, nothing is
  thrown: the result is stored as the identity and the execute envelope is sent with it.
\<close>

theorem failed_login_is_not_cached:
  "(nullish (uid this) \<and>
    jsonRpc tr this ''common'' ''login''
      [JStr (db (cfg this)), JStr (username (cfg this)), JStr (password (cfg this))] n =
      (Inl e, n1) \<longrightarrow>
      executeKw tr this m meth as kw n = (Inl e, this, n1) \<and>
      sent n1 = sent n @ [login_envelope this] \<and>
      (\<exists>rest. sent (snd (snd (executeKw tr this m' meth' as' kw' n1))) =
         sent n1 @ login_envelope this # rest)) \<and>
   (nullish (uid this) \<and>
    jsonRpc tr this ''common'' ''login''
      [JStr (db (cfg this)), JStr (username (cfg this)), JStr (password (cfg this))] n =
      (Inr r, n1) \<longrightarrow>
      executeKw tr this m meth as kw n =
        (case jsonRpc tr (this\<lparr>uid := r\<rparr>) ''object'' ''execute_kw''
                [JStr (db (cfg this)), r, JStr (password (cfg this)),
                 m, JStr meth, JArr as, kw] n1 of
           (res, n2) \<Rightarrow> (res, this\<lparr>uid := r\<rparr>, n2)))"
proof -
  have a: "executeKw tr this m meth as kw n = (Inl e, this, n1) \<and>
      sent n1 = sent n @ [login_envelope this] \<and>
      (\<exists>rest. sent (snd (snd (executeKw tr this m' meth' as' kw' n1))) =
         sent n1 @ login_envelope this # rest)"
    if u: "nullish (uid this)" and j: "jsonRpc tr this ''common'' ''login''
      [JStr (db (cfg this)), JStr (username (cfg this)), JStr (password (cfg this))] n =
      (Inl e, n1)"
  proof -
    have "executeKw tr this m meth as kw n = (Inl e, this, n1)"
      using u j by (simp add: executeKw_def login_def)
    moreover have "sent n1 = sent n @ [login_envelope this]"
      using jsonRpc_sentD [OF j] by (simp add: login_envelope_def)
    ultimately show ?thesis
      using executeKw_fresh_first [OF u, of tr m' meth' as' kw' n1] by simp
  qed
  have b: "executeKw tr this m meth as kw n =
        (case jsonRpc tr (this\<lparr>uid := r\<rparr>) ''object'' ''execute_kw''
                [JStr (db (cfg this)), r, JStr (password (cfg this)),
                 m, JStr meth, JArr as, kw] n1 of
           (res, n2) \<Rightarrow> (res, this\<lparr>uid := r\<rparr>, n2))"
    if u: "nullish (uid this)" and j: "jsonRpc tr this ''common'' ''login''
      [JStr (db (cfg this)), JStr (username (cfg this)), JStr (password (cfg this))] n =
      (Inr r, n1)"
    using u j by (simp add: executeKw_def login_def)
  from a b show ?thesis by blast
qed

lemma example_login_down:
  "jsonRpc backend_down (new_OdooClient example_config) ''common'' ''login''
     [JStr (db (cfg (new_OdooClient example_config))),
      JStr (username (cfg (new_OdooClient example_config))),
      JStr (password (cfg (new_OdooClient example_config)))] example_net =
     (Inl (NetworkError ''connection refused''),
      \<lparr> world = (), sent = [login_envelope (new_OdooClient example_config)] \<rparr>)"
  by (simp add: jsonRpc_def backend_down_def example_net_def login_envelope_def)

lemma example_login_rpc_ok:
  "jsonRpc backend_ok (new_OdooClient example_config) ''common'' ''login''
     [JStr (db (cfg (new_OdooClient example_config))),
      JStr (username (cfg (new_OdooClient example_config))),
      JStr (password (cfg (new_OdooClient example_config)))] example_net =
     (Inr (JNum (Fin 7)),
      \<lparr> world = (), sent = [login_envelope (new_OdooClient example_config)] \<rparr>)"
  by (simp add: jsonRpc_def backend_ok_def example_net_def login_envelope_def envelope_def)

theorem failed_login_witness:
  "nullish (uid (new_OdooClient example_config)) \<and>
   executeKw backend_down (new_OdooClient example_config) (JStr ''res.partner'') ''read'' []
     (JObj []) example_net =
     (Inl (NetworkError ''connection refused''), new_OdooClient example_config,
      \<lparr> world = (), sent = [login_envelope (new_OdooClient example_config)] \<rparr>) \<and>
   executeKw backend_ok (new_OdooClient example_config) (JStr ''res.partner'') ''read'' []
     (JObj []) example_net =
     (Inr (JArr []), (new_OdooClient example_config)\<lparr>uid := JNum (Fin 7)\<rparr>,
      \<lparr> world = (),
        sent = [login_envelope (new_OdooClient example_config),
                execute_envelope ((new_OdooClient example_config)\<lparr>uid := JNum (Fin 7)\<rparr>)
                  (JStr ''res.partner'') ''read'' [] (JObj [])] \<rparr>)"
proof -
  have u: "nullish (uid (new_OdooClient example_config))"
    by (simp add: new_OdooClient_def)
  have a: "executeKw backend_down (new_OdooClient example_config) (JStr ''res.partner'') ''read''
      [] (JObj []) example_net =
     (Inl (NetworkError ''connection refused''), new_OdooClient example_config,
      \<lparr> world = (), sent = [login_envelope (new_OdooClient example_config)] \<rparr>)"
    using failed_login_is_not_cached [of "new_OdooClient example_config" backend_down example_net
        "NetworkError ''connection refused''"
        "\<lparr> world = (), sent = [login_envelope (new_OdooClient example_config)] \<rparr>"
        "JStr ''res.partner''" "''read''" "[]" "JObj []"]
      u example_login_down
    by blast
  have "executeKw backend_ok (new_OdooClient example_config) (JStr ''res.partner'') ''read''
      [] (JObj []) example_net =
      (case jsonRpc backend_ok ((new_OdooClient example_config)\<lparr>uid := JNum (Fin 7)\<rparr>)
              ''object'' ''execute_kw''
              [JStr (db (cfg (new_OdooClient example_config))), JNum (Fin 7),
               JStr (password (cfg (new_OdooClient example_config))),
               JStr ''res.partner'', JStr ''read'', JArr [], JObj []]
              \<lparr> world = (), sent = [login_envelope (new_OdooClient example_config)] \<rparr> of
         (res, n2) \<Rightarrow> (res, (new_OdooClient example_config)\<lparr>uid := JNum (Fin 7)\<rparr>, n2))"
    using failed_login_is_not_cached [where this = "new_OdooClient example_config"
        and tr = backend_ok and n = example_net and r = "JNum (Fin 7)"
        and ?n1.0 = "\<lparr> world = (), sent = [login_envelope (new_OdooClient example_config)] \<rparr>"
        and m = "JStr ''res.partner''" and meth = "''read''" and as = "[]" and kw = "JObj []"]
      u example_login_rpc_ok
    by blast
  then have b: "executeKw backend_ok (new_OdooClient example_config) (JStr ''res.partner'')
      ''read'' [] (JObj []) example_net =
     (Inr (JArr []), (new_OdooClient example_config)\<lparr>uid := JNum (Fin 7)\<rparr>,
      \<lparr> world = (),
        sent = [login_envelope (new_OdooClient example_config),
                execute_envelope ((new_OdooClient example_config)\<lparr>uid := JNum (Fin 7)\<rparr>)
                  (JStr ''res.partner'') ''read'' [] (JObj [])] \<rparr>)"
    by (simp add: jsonRpc_def backend_ok_def execute_envelope_def envelope_def)
  from u a b show ?thesis by simp
qed

text \<open>
  C3, as stated, fails where the login returns no identity. A login answered with
  \<^verbatim>\<open>null\<close> does not make the call fail: the execute envelope is sent and its result is
  returned. A login answered with \<^verbatim>\<open>false\<close> does not fail either, and
  \<^verbatim>\<open>false\<close> is stored as the identity.
\<close>

theorem login_without_identity_counterexample:
  "fst (jsonRpc backend_no_identity (new_OdooClient example_config) ''common'' ''login''
     [JStr ''d'', JStr ''u'', JStr ''p''] example_net) = Inr JNull \<and>
   fst (executeKw backend_no_identity (new_OdooClient example_config) (JStr ''res.partner'')
     ''read'' [] (JObj []) example_net) = Inr JNull \<and>
   map service (sent (snd (snd (executeKw backend_no_identity (new_OdooClient example_config)
     (JStr ''res.partner'') ''read'' [] (JObj []) example_net)))) = [''common'', ''object''] \<and>
   fst (jsonRpc backend_rejects_credentials (new_OdooClient example_config) ''common'' ''login''
     [JStr ''d'', JStr ''u'', JStr ''p''] example_net) = Inr (JBool False) \<and>
   fst (executeKw backend_rejects_credentials (new_OdooClient example_config)
     (JStr ''res.partner'') ''read'' [] (JObj []) example_net) = Inr (JArr []) \<and>
   uid (fst (snd (executeKw backend_rejects_credentials (new_OdooClient example_config)
     (JStr ''res.partner'') ''read'' [] (JObj []) example_net))) = JBool False"
  by (simp add: executeKw_def login_def jsonRpc_def backend_no_identity_def
      backend_rejects_credentials_def new_OdooClient_def example_config_def example_net_def
      envelope_def)

section \<open>The resource address resolver\<close>

text \<open>
  C7. When the \<^verbatim>\<open>read\<close> call of a record resolution returns the empty list, the
  resolver returns the empty structure and no error. When it returns a non-empty list whose first
  element is a record (any value but \<^verbatim>\<open>null\<close> and \<^verbatim>\<open>undefined\<close>), the
  resolver returns that first element. A first element that is \<^verbatim>\<open>null\<close> counts as
  no record and gives the empty structure too.
\<close>

theorem record_resource_absent_is_empty:
  "executeKw tr (odoo this) (segment (split_slash pathname) 1) ''read''
     [JArr [JNum (to_number (segment (split_slash pathname) 2))]] (JObj []) n = (Inr r, c, n') \<longrightarrow>
     (r = JArr [] \<longrightarrow>
        fst (record_resource to_number tr this pathname n) = Inr (JObj [])) \<and>
     (\<forall>x xs. r = JArr (x # xs) \<and> \<not> nullish x \<longrightarrow>
        fst (record_resource to_number tr this pathname n) = Inr x) \<and>
     (\<forall>x xs. r = JArr (x # xs) \<and> nullish x \<longrightarrow>
        fst (record_resource to_number tr this pathname n) = Inr (JObj []))"
  by (simp add: record_resource_def Let_def)

lemma example_odoo: "odoo (init example_parseInt example_props) = new_OdooClient example_config"
  by (simp add: init_def getConfigFromContext_def example_props_def header_props_def
      example_headers_def or_else_def example_config_def example_parseInt_60000 Let_def)

lemma example_read_nothing:
  "executeKw backend_ok (new_OdooClient example_config) (JStr ''res.partner'') ''read''
     [JArr [JNum (Fin 999999)]] (JObj []) example_net =
   (Inr (JArr []), (new_OdooClient example_config)\<lparr>uid := JNum (Fin 7)\<rparr>,
    \<lparr> world = (),
      sent = [login_envelope (new_OdooClient example_config),
              execute_envelope ((new_OdooClient example_config)\<lparr>uid := JNum (Fin 7)\<rparr>)
                (JStr ''res.partner'') ''read'' [JArr [JNum (Fin 999999)]] (JObj [])] \<rparr>)"
  by (simp add: executeKw_def login_def jsonRpc_def backend_ok_def new_OdooClient_def
      example_config_def example_net_def envelope_def login_envelope_def execute_envelope_def)

lemma example_read_record:
  "executeKw backend_record (new_OdooClient example_config) (JStr ''res.partner'') ''read''
     [JArr [JNum (Fin 999999)]] (JObj []) example_net =
   (Inr (JArr [JObj [(''id'', JNum (Fin 5))]]),
    (new_OdooClient example_config)\<lparr>uid := JNum (Fin 7)\<rparr>,
    \<lparr> world = (),
      sent = [login_envelope (new_OdooClient example_config),
              execute_envelope ((new_OdooClient example_config)\<lparr>uid := JNum (Fin 7)\<rparr>)
                (JStr ''res.partner'') ''read'' [JArr [JNum (Fin 999999)]] (JObj [])] \<rparr>)"
  by (simp add: executeKw_def login_def jsonRpc_def backend_record_def new_OdooClient_def
      example_config_def example_net_def envelope_def login_envelope_def execute_envelope_def)

lemma example_read_null:
  "executeKw backend_null_record (new_OdooClient example_config) (JStr ''res.partner'') ''read''
     [JArr [JNum (Fin 999999)]] (JObj []) example_net =
   (Inr (JArr [JNull]), (new_OdooClient example_config)\<lparr>uid := JNum (Fin 7)\<rparr>,
    \<lparr> world = (),
      sent = [login_envelope (new_OdooClient example_config),
              execute_envelope ((new_OdooClient example_config)\<lparr>uid := JNum (Fin 7)\<rparr>)
                (JStr ''res.partner'') ''read'' [JArr [JNum (Fin 999999)]] (JObj [])] \<rparr>)"
  by (simp add: executeKw_def login_def jsonRpc_def backend_null_record_def new_OdooClient_def
      example_config_def example_net_def envelope_def login_envelope_def execute_envelope_def)

theorem record_resource_witness:
  "fst (record_resource example_number backend_ok (init example_parseInt example_props) ''/res.partner/999999''
     example_net) = Inr (JObj []) \<and>
   fst (record_resource example_number backend_record (init example_parseInt example_props) ''/res.partner/999999''
     example_net) = Inr (JObj [(''id'', JNum (Fin 5))]) \<and>
   fst (record_resource example_number backend_null_record (init example_parseInt example_props)
     ''/res.partner/999999'' example_net) = Inr (JObj [])"
proof -
  have pre_a: "executeKw backend_ok (odoo (init example_parseInt example_props))
      (segment (split_slash ''/res.partner/999999'') 1) ''read''
      [JArr [JNum (example_number (segment (split_slash ''/res.partner/999999'') 2))]] (JObj [])
      example_net =
    (Inr (JArr []), (new_OdooClient example_config)\<lparr>uid := JNum (Fin 7)\<rparr>,
     \<lparr> world = (),
       sent = [login_envelope (new_OdooClient example_config),
               execute_envelope ((new_OdooClient example_config)\<lparr>uid := JNum (Fin 7)\<rparr>)
                 (JStr ''res.partner'') ''read'' [JArr [JNum (Fin 999999)]] (JObj [])] \<rparr>)"
    by (simp add: segment_def example_number_def example_odoo example_read_nothing)
  have pre_b: "executeKw backend_record (odoo (init example_parseInt example_props))
      (segment (split_slash ''/res.partner/999999'') 1) ''read''
      [JArr [JNum (example_number (segment (split_slash ''/res.partner/999999'') 2))]] (JObj [])
      example_net =
    (Inr (JArr [JObj [(''id'', JNum (Fin 5))]]),
     (new_OdooClient example_config)\<lparr>uid := JNum (Fin 7)\<rparr>,
     \<lparr> world = (),
       sent = [login_envelope (new_OdooClient example_config),
               execute_envelope ((new_OdooClient example_config)\<lparr>uid := JNum (Fin 7)\<rparr>)
                 (JStr ''res.partner'') ''read'' [JArr [JNum (Fin 999999)]] (JObj [])] \<rparr>)"
    by (simp add: segment_def example_number_def example_odoo example_read_record)
  have pre_c: "executeKw backend_null_record (odoo (init example_parseInt example_props))
      (segment (split_slash ''/res.partner/999999'') 1) ''read''
      [JArr [JNum (example_number (segment (split_slash ''/res.partner/999999'') 2))]] (JObj [])
      example_net =
    (Inr (JArr [JNull]), (new_OdooClient example_config)\<lparr>uid := JNum (Fin 7)\<rparr>,
     \<lparr> world = (),
       sent = [login_envelope (new_OdooClient example_config),
               execute_envelope ((new_OdooClient example_config)\<lparr>uid := JNum (Fin 7)\<rparr>)
                 (JStr ''res.partner'') ''read'' [JArr [JNum (Fin 999999)]] (JObj [])] \<rparr>)"
    by (simp add: segment_def example_number_def example_odoo example_read_null)
  have rec: "\<not> nullish (JObj [(''id'', JNum (Fin 5))])" "nullish JNull"
    by simp_all
  have a: "fst (record_resource example_number backend_ok (init example_parseInt example_props)
      ''/res.partner/999999'' example_net) = Inr (JObj [])"
    using record_resource_absent_is_empty [of backend_ok "init example_parseInt example_props"
        "''/res.partner/999999''" example_number example_net "JArr []"] pre_a
    by blast
  have b: "fst (record_resource example_number backend_record (init example_parseInt example_props)
      ''/res.partner/999999'' example_net) = Inr (JObj [(''id'', JNum (Fin 5))])"
    using record_resource_absent_is_empty [of backend_record "init example_parseInt example_props"
        "''/res.partner/999999''" example_number example_net
        "JArr [JObj [(''id'', JNum (Fin 5))]]"] pre_b rec
    by blast
  have c: "fst (record_resource example_number backend_null_record (init example_parseInt example_props)
      ''/res.partner/999999'' example_net) = Inr (JObj [])"
    using record_resource_absent_is_empty [of backend_null_record "init example_parseInt example_props"
        "''/res.partner/999999''" example_number example_net "JArr [JNull]"] pre_c rec
    by blast
  from a b c show ?thesis by simp
qed

lemma executeKw_requests:
  assumes "executeKw tr this m meth as kw n = (r, this', n')"
  shows "(nullish (uid this) \<and> (\<exists>e. r = Inl e) \<and> this' = this \<and>
          sent n' = sent n @ [login_envelope this]) \<or>
         sent n' = sent n @ (if nullish (uid this) then [login_envelope this] else []) @
           [execute_envelope this' m meth as kw]"
proof -
  obtain lr this1 n1 where l: "login tr this n = (lr, this1, n1)"
    by (cases "login tr this n")
  have s: "sent n1 = sent n @ (if nullish (uid this) then [login_envelope this] else [])"
    and c: "cfg this1 = cfg this"
    using login_sent [OF l] by simp_all
  show ?thesis
  proof (cases lr)
    case (Inl e)
    with l have "nullish (uid this)"
      by (auto simp: login_def split: if_splits prod.splits sum.splits)
    moreover from l Inl have "this1 = this"
      by (auto simp: login_def split: if_splits prod.splits sum.splits)
    ultimately show ?thesis
      using assms l Inl s by (auto simp: executeKw_def)
  next
    case (Inr u)
    obtain res n2 where j: "jsonRpc tr this1 ''object'' ''execute_kw''
        [JStr (db (cfg this1)), uid this1, JStr (password (cfg this1)),
         m, JStr meth, JArr as, kw] n1 = (res, n2)"
      by (cases "jsonRpc tr this1 ''object'' ''execute_kw''
        [JStr (db (cfg this1)), uid this1, JStr (password (cfg this1)),
         m, JStr meth, JArr as, kw] n1")
    have "sent n2 = sent n1 @ [execute_envelope this1 m meth as kw]"
      using jsonRpc_sentD [OF j] by (simp add: execute_envelope_def)
    moreover have "this' = this1" "n' = n2"
      using assms l Inr j by (simp_all add: executeKw_def)
    ultimately show ?thesis using s by simp
  qed
qed

text \<open>
  C8. When the third path segment decodes to a text that parses to a value \<open>D\<close>, the search
  resolver is the single call \<^verbatim>\<open>executeKw(model, "search_read", [D])\<close> on the client of
  the agent, with \<open>D\<close> as it was parsed: among the requests it sends there is one execute
  envelope, the one of that call, unless the login that precedes it on a client without identity
  throws, and on a client with an identity it is the only request. When the segment does not
  decode, or the decoded text does not parse, the resolver fails with that error, sends nothing
  and leaves the agent as it was.
\<close>

theorem search_resource_forwards_domain:
  "(decode (segment_text (segment (split_slash pathname) 2)) = Some t \<and> parse t = Some D \<longrightarrow>
      search_resource decode parse tr this pathname n =
        (case executeKw tr (odoo this) (segment (split_slash pathname) 1) ''search_read'' [D]
                (JObj []) n of
           (r, c, n') \<Rightarrow> (r, this\<lparr>odoo := c\<rparr>, n')) \<and>
      (\<exists>new. sent (snd (snd (search_resource decode parse tr this pathname n))) = sent n @ new \<and>
         (nullish (uid (odoo this)) \<and> new = [login_envelope (odoo this)] \<and>
          (\<exists>e. fst (search_resource decode parse tr this pathname n) = Inl e) \<or>
          filter is_execute new =
            [execute_envelope (odoo (fst (snd (search_resource decode parse tr this pathname n))))
               (segment (split_slash pathname) 1) ''search_read'' [D] (JObj [])])) \<and>
      (\<not> nullish (uid (odoo this)) \<longrightarrow>
         sent (snd (snd (search_resource decode parse tr this pathname n))) =
           sent n @ [execute_envelope (odoo this) (segment (split_slash pathname) 1)
                       ''search_read'' [D] (JObj [])])) \<and>
   (decode (segment_text (segment (split_slash pathname) 2)) = None \<longrightarrow>
      search_resource decode parse tr this pathname n = (Inl URIError, this, n)) \<and>
   (decode (segment_text (segment (split_slash pathname) 2)) = Some t \<and> parse t = None \<longrightarrow>
      search_resource decode parse tr this pathname n = (Inl SyntaxError, this, n))"
proof -
  have ok: "search_resource decode parse tr this pathname n =
        (case executeKw tr (odoo this) (segment (split_slash pathname) 1) ''search_read'' [D]
                (JObj []) n of
           (r, c, n') \<Rightarrow> (r, this\<lparr>odoo := c\<rparr>, n'))"
    if "decode (segment_text (segment (split_slash pathname) 2)) = Some t" "parse t = Some D"
    using that by (simp add: search_resource_def JSON_parse_def Let_def)
  have one: "\<exists>new. sent (snd (snd (search_resource decode parse tr this pathname n))) =
        sent n @ new \<and>
         (nullish (uid (odoo this)) \<and> new = [login_envelope (odoo this)] \<and>
          (\<exists>e. fst (search_resource decode parse tr this pathname n) = Inl e) \<or>
          filter is_execute new =
            [execute_envelope (odoo (fst (snd (search_resource decode parse tr this pathname n))))
               (segment (split_slash pathname) 1) ''search_read'' [D] (JObj [])])"
    if d: "decode (segment_text (segment (split_slash pathname) 2)) = Some t" "parse t = Some D"
  proof -
    define model where "model = segment (split_slash pathname) 1"
    obtain r c n' where e: "executeKw tr (odoo this) model ''search_read'' [D] (JObj []) n =
        (r, c, n')"
      by (cases "executeKw tr (odoo this) model ''search_read'' [D] (JObj []) n")
    have "search_resource decode parse tr this pathname n = (r, this\<lparr>odoo := c\<rparr>, n')"
      using ok [OF d] e by (simp add: model_def)
    then show ?thesis
      using executeKw_requests [OF e] by (auto simp: model_def)
  qed
  have cached: "sent (snd (snd (search_resource decode parse tr this pathname n))) =
           sent n @ [execute_envelope (odoo this) (segment (split_slash pathname) 1)
                       ''search_read'' [D] (JObj [])]"
    if d: "decode (segment_text (segment (split_slash pathname) 2)) = Some t" "parse t = Some D"
      and u: "\<not> nullish (uid (odoo this))"
  proof -
    define model where "model = segment (split_slash pathname) 1"
    have "search_resource decode parse tr this pathname n =
        (case executeKw tr (odoo this) model ''search_read'' [D] (JObj []) n of
           (r, c, n') \<Rightarrow> (r, this\<lparr>odoo := c\<rparr>, n'))"
      using ok [OF d] by (simp add: model_def)
    then have "sent (snd (snd (search_resource decode parse tr this pathname n))) =
        sent n @ [execute_envelope (odoo this) model ''search_read'' [D] (JObj [])]"
      using executeKw_cached_sent(2) [OF u, of tr model "''search_read''" "[D]" "JObj []" n]
      by (simp split: prod.splits)
    then show ?thesis by (simp add: model_def)
  qed
  have bad1: "search_resource decode parse tr this pathname n = (Inl URIError, this, n)"
    if "decode (segment_text (segment (split_slash pathname) 2)) = None"
    using that by (simp add: search_resource_def Let_def)
  have bad2: "search_resource decode parse tr this pathname n = (Inl SyntaxError, this, n)"
    if "decode (segment_text (segment (split_slash pathname) 2)) = Some t" "parse t = None"
    using that by (simp add: search_resource_def JSON_parse_def Let_def)
  from ok one cached bad1 bad2 show ?thesis by blast
qed

lemma example_search_all:
  "executeKw backend_ok (new_OdooClient example_config) (JStr ''res.partner'') ''search_read''
     [JArr []] (JObj []) example_net =
   (Inr (JArr []), (new_OdooClient example_config)\<lparr>uid := JNum (Fin 7)\<rparr>,
    \<lparr> world = (),
      sent = [login_envelope (new_OdooClient example_config),
              execute_envelope ((new_OdooClient example_config)\<lparr>uid := JNum (Fin 7)\<rparr>)
                (JStr ''res.partner'') ''search_read'' [JArr []] (JObj [])] \<rparr>)"
  by (simp add: executeKw_def login_def jsonRpc_def backend_ok_def new_OdooClient_def
      example_config_def example_net_def envelope_def login_envelope_def execute_envelope_def)

theorem search_resource_witness:
  "search_resource example_decode example_parse backend_ok (init example_parseInt example_props)
     ''/res.partner/%5B%5D'' example_net =
     (Inr (JArr []),
      (init example_parseInt example_props)\<lparr>odoo := (new_OdooClient example_config)\<lparr>uid := JNum (Fin 7)\<rparr>\<rparr>,
      \<lparr> world = (),
        sent = [login_envelope (new_OdooClient example_config),
                execute_envelope ((new_OdooClient example_config)\<lparr>uid := JNum (Fin 7)\<rparr>)
                  (JStr ''res.partner'') ''search_read'' [JArr []] (JObj [])] \<rparr>) \<and>
   search_resource example_decode example_parse backend_ok (init example_parseInt example_props)
     ''/res.partner/%'' example_net = (Inl URIError, init example_parseInt example_props, example_net) \<and>
   search_resource example_decode example_parse backend_ok (init example_parseInt example_props)
     ''/res.partner/oops'' example_net = (Inl SyntaxError, init example_parseInt example_props, example_net)"
proof -
  have d1: "example_decode (segment_text (segment (split_slash ''/res.partner/%5B%5D'') 2)) =
      Some ''[]''"
    by (simp add: segment_def segment_text_def example_decode_def)
  have p1: "example_parse ''[]'' = Some (JArr [])"
    by (simp add: example_parse_def example_list_text_def)
  have d2: "example_decode (segment_text (segment (split_slash ''/res.partner/%'') 2)) = None"
    by (simp add: segment_def segment_text_def example_decode_def)
  have d3: "example_decode (segment_text (segment (split_slash ''/res.partner/oops'') 2)) =
      Some ''oops''"
    by (simp add: segment_def segment_text_def example_decode_def)
  have p3: "example_parse ''oops'' = None"
    by (simp add: example_parse_def example_list_text_def)
  have m1: "segment (split_slash ''/res.partner/%5B%5D'') 1 = JStr ''res.partner''"
    by (simp add: segment_def)
  have "search_resource example_decode example_parse backend_ok (init example_parseInt example_props)
      ''/res.partner/%5B%5D'' example_net =
      (case executeKw backend_ok (odoo (init example_parseInt example_props))
              (segment (split_slash ''/res.partner/%5B%5D'') 1) ''search_read'' [JArr []]
              (JObj []) example_net of
         (r, c, n') \<Rightarrow> (r, (init example_parseInt example_props)\<lparr>odoo := c\<rparr>, n'))"
    using search_resource_forwards_domain [where decode = example_decode
        and pathname = "''/res.partner/%5B%5D''" and t = "''[]''" and parse = example_parse
        and D = "JArr []" and tr = backend_ok and this = "init example_parseInt example_props"
        and n = example_net] d1 p1
    by blast
  then have a: "search_resource example_decode example_parse backend_ok (init example_parseInt example_props)
      ''/res.partner/%5B%5D'' example_net =
     (Inr (JArr []),
      (init example_parseInt example_props)\<lparr>odoo := (new_OdooClient example_config)\<lparr>uid := JNum (Fin 7)\<rparr>\<rparr>,
      \<lparr> world = (),
        sent = [login_envelope (new_OdooClient example_config),
                execute_envelope ((new_OdooClient example_config)\<lparr>uid := JNum (Fin 7)\<rparr>)
                  (JStr ''res.partner'') ''search_read'' [JArr []] (JObj [])] \<rparr>)"
    by (simp only: m1 example_odoo example_search_all prod.case)
  have b: "search_resource example_decode example_parse backend_ok (init example_parseInt example_props)
      ''/res.partner/%'' example_net = (Inl URIError, init example_parseInt example_props, example_net)"
    using search_resource_forwards_domain [where decode = example_decode
        and pathname = "''/res.partner/%''" and parse = example_parse
        and tr = backend_ok and this = "init example_parseInt example_props" and n = example_net] d2
    by blast
  have c: "search_resource example_decode example_parse backend_ok (init example_parseInt example_props)
      ''/res.partner/oops'' example_net = (Inl SyntaxError, init example_parseInt example_props, example_net)"
    using search_resource_forwards_domain [where decode = example_decode
        and pathname = "''/res.partner/oops''" and t = "''oops''" and parse = example_parse
        and tr = backend_ok and this = "init example_parseInt example_props" and n = example_net] d3 p3
    by blast
  from a b c show ?thesis by simp
qed

section \<open>The handlers of the agent\<close>

lemma executeKw_prefix:
  assumes "executeKw tr this m meth as kw n = (r, this', n')"
  shows "prefix (sent n) (sent n')"
  using executeKw_requests [OF assms] by (auto simp: prefix_def)

lemma create_lines_prefix:
  "create_lines tr c orderId lines n = (r, c', n') \<Longrightarrow> prefix (sent n) (sent n')"
proof (induction lines arbitrary: c n)
  case Nil
  then show ?case by simp
next
  case (Cons line lines)
  obtain r1 c1 n1 where e1: "executeKw tr c (JStr ''product.product'') ''search_read''
             [JArr [JArr [JStr ''default_code'', JStr ''='', JStr (reference_code line)]]]
             (JObj [(''fields'', JArr [JStr ''id'']), (''limit'', JNum (Fin 1))]) n = (r1, c1, n1)"
    using prod_cases3 by blast
  note p1 = executeKw_prefix [OF e1]
  show ?case
  proof (cases "\<exists>v prod1 prod_id. r1 = Inr v \<and> first_of v = Inr prod1 \<and> truthy prod1 \<and>
      get_prop prod1 ''id'' = Inr prod_id")
    case False
    with Cons.prems e1 have "n' = n1"
      by (auto split: sum.splits if_splits)
    with p1 show ?thesis by simp
  next
    case True
    then obtain v prod1 prod_id where v: "r1 = Inr v" "first_of v = Inr prod1" "truthy prod1"
      "get_prop prod1 ''id'' = Inr prod_id"
      by blast
    obtain r2 c2 n2 where e2: "executeKw tr c1 (JStr ''sale.order.line'') ''create''
        [JObj [(''order_id'', orderId), (''product_id'', prod_id),
               (''product_uom_qty'', JNum (Fin (qty line)))]] (JObj []) n1 = (r2, c2, n2)"
      using prod_cases3 by blast
    note p2 = executeKw_prefix [OF e2]
    show ?thesis
    proof (cases r2)
      case (Inl e)
      with Cons.prems e1 v e2 have "n' = n2" by simp
      with p1 p2 show ?thesis by auto
    next
      case (Inr u)
      with Cons.prems e1 v e2 have "create_lines tr c2 orderId lines n2 = (r, c', n')"
        by simp
      from Cons.IH [OF this] p1 p2 show ?thesis by auto
    qed
  qed
qed

lemma create_sale_order_try_first:
  assumes "nullish (uid c)"
  shows "\<exists>rest. sent (snd (snd (create_sale_order_try tr c tax_id confirm lines n))) =
           sent n @ login_envelope c # rest"
proof -
  obtain r1 c1 n1 where e1: "executeKw tr c (JStr ''res.partner'') ''search_read''
             [JArr [JArr [JStr ''vat'', JStr ''='', JStr tax_id]]]
             (JObj [(''fields'', JArr [JStr ''id'']), (''limit'', JNum (Fin 1))]) n = (r1, c1, n1)"
    using prod_cases3 by blast
  obtain rest1 where f: "sent n1 = sent n @ login_envelope c # rest1"
    using executeKw_fresh_first [OF assms, of tr "JStr ''res.partner''" "''search_read''"
        "[JArr [JArr [JStr ''vat'', JStr ''='', JStr tax_id]]]"
        "JObj [(''fields'', JArr [JStr ''id'']), (''limit'', JNum (Fin 1))]" n]
    by (auto simp: e1)
  have "prefix (sent n1) (sent (snd (snd (create_sale_order_try tr c tax_id confirm lines n))))"
  proof (cases "\<exists>v partner partner_id. r1 = Inr v \<and> first_of v = Inr partner \<and> truthy partner \<and>
      get_prop partner ''id'' = Inr partner_id")
    case False
    with e1 have "snd (snd (create_sale_order_try tr c tax_id confirm lines n)) = n1"
      by (auto simp: create_sale_order_try_def split: sum.splits if_splits)
    then show ?thesis by simp
  next
    case True
    then obtain v partner partner_id where v: "r1 = Inr v" "first_of v = Inr partner"
      "truthy partner" "get_prop partner ''id'' = Inr partner_id"
      by blast
    obtain r2 c2 n2 where e2: "executeKw tr c1 (JStr ''sale.order'') ''create''
        [JObj [(''partner_id'', partner_id)]] (JObj []) n1 = (r2, c2, n2)"
      using prod_cases3 by blast
    note p2 = executeKw_prefix [OF e2]
    show ?thesis
    proof (cases r2)
      case (Inl e)
      with e1 v e2 have "snd (snd (create_sale_order_try tr c tax_id confirm lines n)) = n2"
        by (simp add: create_sale_order_try_def)
      with p2 show ?thesis by simp
    next
      case (Inr orderId)
      obtain r3 c3 n3 where e3: "create_lines tr c2 orderId lines n2 = (r3, c3, n3)"
        using prod_cases3 by blast
      from e1 v e2 Inr e3
      have "snd (snd (create_sale_order_try tr c tax_id confirm lines n)) = n3"
        by (simp add: create_sale_order_try_def split: sum.splits)
      with p2 create_lines_prefix [OF e3] show ?thesis by auto
    qed
  qed
  with f show ?thesis by (auto simp: prefix_def)
qed

lemma getOdooClient_fresh:
  "uid (snd (getOdooClient parseInt this)) = JNull"
  "odoo (fst (getOdooClient parseInt this)) = snd (getOdooClient parseInt this)"
  "snd (getOdooClient parseInt this) = new_OdooClient (odooConfig (getConfigFromContext parseInt (this_props this)))"
  by (simp_all add: getOdooClient_def new_OdooClient_def Let_def)

lemma search_product_first:
  "\<exists>rest. sent (snd (snd (search_product_by_reference_code parseInt tr this ref n))) =
     sent n @ login_envelope (snd (getOdooClient parseInt this)) # rest"
proof -
  obtain this1 c where g: "getOdooClient parseInt this = (this1, c)"
    by (cases "getOdooClient parseInt this")
  then have u: "nullish (uid c)"
    using getOdooClient_fresh(1) [of parseInt this] by simp
  obtain r c1 n1 where e: "executeKw tr c (JStr ''product.product'') ''search_read''
      [JArr [JArr [JStr ''default_code'', JStr ''='', JStr ref]]]
      (JObj [(''fields'', JArr [JStr ''id'', JStr ''name'', JStr ''default_code'',
                               JStr ''list_price'', JStr ''qty_available'']),
             (''limit'', JNum (Fin 1))]) n = (r, c1, n1)"
    using prod_cases3 by blast
  have "snd (snd (search_product_by_reference_code parseInt tr this ref n)) = n1"
    by (simp add: search_product_by_reference_code_def g e split: sum.splits)
  then show ?thesis
    using executeKw_fresh_first [OF u, of tr "JStr ''product.product''" "''search_read''"
        "[JArr [JArr [JStr ''default_code'', JStr ''='', JStr ref]]]"
        "JObj [(''fields'', JArr [JStr ''id'', JStr ''name'', JStr ''default_code'',
                               JStr ''list_price'', JStr ''qty_available'']),
             (''limit'', JNum (Fin 1))]" n]
    by (simp add: e g)
qed

lemma search_product_client:
  "odoo (fst (snd (search_product_by_reference_code parseInt tr this ref n))) =
     fst (snd (executeKw tr (snd (getOdooClient parseInt this)) (JStr ''product.product'') ''search_read''
       [JArr [JArr [JStr ''default_code'', JStr ''='', JStr ref]]]
       (JObj [(''fields'', JArr [JStr ''id'', JStr ''name'', JStr ''default_code'',
                                JStr ''list_price'', JStr ''qty_available'']),
              (''limit'', JNum (Fin 1))]) n))"
  by (simp add: search_product_by_reference_code_def split: prod.splits sum.splits)

lemma create_sale_order_first:
  "\<exists>rest. sent (snd (snd (create_sale_order parseInt tr this tax_id confirm lines n))) =
     sent n @ login_envelope (snd (getOdooClient parseInt this)) # rest"
proof -
  obtain this1 c where g: "getOdooClient parseInt this = (this1, c)"
    by (cases "getOdooClient parseInt this")
  then have u: "nullish (uid c)"
    using getOdooClient_fresh(1) [of parseInt this] by simp
  have "snd (snd (create_sale_order parseInt tr this tax_id confirm lines n)) =
      snd (snd (create_sale_order_try tr c tax_id confirm lines n))"
    by (simp add: create_sale_order_def g split: prod.splits sum.splits)
  then show ?thesis
    using create_sale_order_try_first [OF u, of tr tax_id confirm lines n] by (simp add: g)
qed

lemma create_sale_order_client:
  "odoo (fst (snd (create_sale_order parseInt tr this tax_id confirm lines n))) =
     fst (snd (create_sale_order_try tr (snd (getOdooClient parseInt this)) tax_id confirm lines n))"
  by (simp add: create_sale_order_def split: prod.splits sum.splits)

text \<open>
  C9, amended. Every invocation of one of the two tool handlers starts by building a new client
  without session identity and storing it in \<^verbatim>\<open>this.odoo\<close>, whatever client was
  there before, and the first request it sends is the login envelope of that new client: an
  identity cached during one tool invocation is never reused by a later one. After the
  invocation \<^verbatim>\<open>this.odoo\<close> holds that client, in the state the handler's calls left
  it. The resource handlers run on the client \<^verbatim>\<open>this.odoo\<close> holds when they are
  invoked: the one \<^verbatim>\<open>init\<close> built until a tool handler has run, the one of the
  latest tool invocation afterwards; when that client has an identity they send their execute
  envelope with it and no login.
\<close>

theorem tool_handlers_build_fresh_client:
  "uid (snd (getOdooClient parseInt this)) = JNull \<and>
   odoo (fst (getOdooClient parseInt this)) = snd (getOdooClient parseInt this) \<and>
   (\<exists>rest. sent (snd (snd (search_product_by_reference_code parseInt tr this ref n))) =
      sent n @ login_envelope (snd (getOdooClient parseInt this)) # rest) \<and>
   (\<exists>rest. sent (snd (snd (create_sale_order parseInt tr this tax_id confirm lines n))) =
      sent n @ login_envelope (snd (getOdooClient parseInt this)) # rest) \<and>
   odoo (fst (snd (search_product_by_reference_code parseInt tr this ref n))) =
     fst (snd (executeKw tr (snd (getOdooClient parseInt this)) (JStr ''product.product'') ''search_read''
       [JArr [JArr [JStr ''default_code'', JStr ''='', JStr ref]]]
       (JObj [(''fields'', JArr [JStr ''id'', JStr ''name'', JStr ''default_code'',
                                JStr ''list_price'', JStr ''qty_available'']),
              (''limit'', JNum (Fin 1))]) n)) \<and>
   odoo (fst (snd (create_sale_order parseInt tr this tax_id confirm lines n))) =
     fst (snd (create_sale_order_try tr (snd (getOdooClient parseInt this)) tax_id confirm lines n)) \<and>
   odoo (init parseInt p) = new_OdooClient (odooConfig (getConfigFromContext parseInt p)) \<and>
   (\<not> nullish (uid (odoo this)) \<longrightarrow>
      sent (snd (snd (models_resource tr this n))) =
        sent n @ [execute_envelope (odoo this) (JStr ''ir.model'') ''search_read''
                    [JArr [], JArr [JStr ''model'', JStr ''name'']] (JObj [])] \<and>
      sent (snd (snd (model_resource tr this pathname n))) =
        sent n @ [execute_envelope (odoo this) (JStr (last (split_slash pathname))) ''fields_get''
                    [JArr [], JArr [JStr ''string'', JStr ''type'', JStr ''required'']]
                    (JObj [])] \<and>
      sent (snd (snd (record_resource to_number tr this pathname n))) =
        sent n @ [execute_envelope (odoo this) (segment (split_slash pathname) 1) ''read''
                    [JArr [JNum (to_number (segment (split_slash pathname) 2))]] (JObj [])])"
proof -
  have res: "sent (snd (snd (models_resource tr this n))) =
        sent n @ [execute_envelope (odoo this) (JStr ''ir.model'') ''search_read''
                    [JArr [], JArr [JStr ''model'', JStr ''name'']] (JObj [])] \<and>
      sent (snd (snd (model_resource tr this pathname n))) =
        sent n @ [execute_envelope (odoo this) (JStr (last (split_slash pathname))) ''fields_get''
                    [JArr [], JArr [JStr ''string'', JStr ''type'', JStr ''required'']]
                    (JObj [])] \<and>
      sent (snd (snd (record_resource to_number tr this pathname n))) =
        sent n @ [execute_envelope (odoo this) (segment (split_slash pathname) 1) ''read''
                    [JArr [JNum (to_number (segment (split_slash pathname) 2))]] (JObj [])]"
    if u: "\<not> nullish (uid (odoo this))"
  proof -
    define model where "model = segment (split_slash pathname) 1"
    define ident where "ident = to_number (segment (split_slash pathname) 2)"
    have "snd (snd (models_resource tr this n)) =
        snd (snd (executeKw tr (odoo this) (JStr ''ir.model'') ''search_read''
          [JArr [], JArr [JStr ''model'', JStr ''name'']] (JObj []) n))"
      by (simp add: models_resource_def split: prod.splits)
    then have a: "sent (snd (snd (models_resource tr this n))) =
        sent n @ [execute_envelope (odoo this) (JStr ''ir.model'') ''search_read''
                    [JArr [], JArr [JStr ''model'', JStr ''name'']] (JObj [])]"
      using executeKw_cached_sent(2) [OF u, of tr "JStr ''ir.model''" "''search_read''"
          "[JArr [], JArr [JStr ''model'', JStr ''name'']]" "JObj []" n]
      by simp
    have "snd (snd (model_resource tr this pathname n)) =
        snd (snd (executeKw tr (odoo this) (JStr (last (split_slash pathname))) ''fields_get''
          [JArr [], JArr [JStr ''string'', JStr ''type'', JStr ''required'']] (JObj []) n))"
      by (simp add: model_resource_def Let_def split: prod.splits)
    then have b: "sent (snd (snd (model_resource tr this pathname n))) =
        sent n @ [execute_envelope (odoo this) (JStr (last (split_slash pathname))) ''fields_get''
                    [JArr [], JArr [JStr ''string'', JStr ''type'', JStr ''required'']]
                    (JObj [])]"
      using executeKw_cached_sent(2) [OF u, of tr "JStr (last (split_slash pathname))"
          "''fields_get''" "[JArr [], JArr [JStr ''string'', JStr ''type'', JStr ''required'']]"
          "JObj []" n]
      by simp
    have "sent (snd (snd (record_resource to_number tr this pathname n))) =
        sent (snd (snd (executeKw tr (odoo this) model ''read'' [JArr [JNum ident]] (JObj []) n)))"
      by (simp add: record_resource_def Let_def model_def ident_def split: prod.splits sum.splits)
    then have c: "sent (snd (snd (record_resource to_number tr this pathname n))) =
        sent n @ [execute_envelope (odoo this) model ''read'' [JArr [JNum ident]] (JObj [])]"
      using executeKw_cached_sent(2) [OF u, of tr model "''read''" "[JArr [JNum ident]]"
          "JObj []" n]
      by simp
    from a b c show ?thesis by (simp add: model_def ident_def)
  qed
  have i: "odoo (init parseInt p) = new_OdooClient (odooConfig (getConfigFromContext parseInt p))"
    by (simp add: init_def Let_def)
  from res i getOdooClient_fresh(1,2) [of parseInt this] search_product_first [of parseInt tr this ref n]
    create_sale_order_first [of parseInt tr this tax_id confirm lines n]
    search_product_client [of parseInt tr this ref n]
    create_sale_order_client [of parseInt tr this tax_id confirm lines n]
  show ?thesis by blast
qed

lemma example_getOdooClient:
  "getOdooClient example_parseInt (init example_parseInt example_props) = (init example_parseInt example_props, new_OdooClient example_config)"
proof -
  have "this_props (init example_parseInt example_props) = example_props"
    by (simp add: init_def Let_def)
  moreover have "odooConfig (getConfigFromContext example_parseInt example_props) = example_config"
    by (simp add: getConfigFromContext_def example_props_def header_props_def
        example_headers_def or_else_def example_config_def example_parseInt_60000)
  ultimately show ?thesis
    using example_odoo by (simp add: getOdooClient_def Let_def)
qed

lemma example_after_tool_eq:
  "example_after_tool =
     (Reply_json (JObj [(''error'', JStr ''Product not found'')]),
      (init example_parseInt example_props)\<lparr>odoo := (new_OdooClient example_config)\<lparr>uid := JNum (Fin 7)\<rparr>\<rparr>,
      \<lparr> world = (),
        sent = [login_envelope (new_OdooClient example_config),
                execute_envelope ((new_OdooClient example_config)\<lparr>uid := JNum (Fin 7)\<rparr>)
                  (JStr ''product.product'') ''search_read''
                  [JArr [JArr [JStr ''default_code'', JStr ''='', JStr ''A'']]]
                  (JObj [(''fields'', JArr [JStr ''id'', JStr ''name'', JStr ''default_code'',
                                           JStr ''list_price'', JStr ''qty_available'']),
                         (''limit'', JNum (Fin 1))])] \<rparr>)"
proof -
  have "executeKw backend_ok (new_OdooClient example_config) (JStr ''product.product'')
      ''search_read'' [JArr [JArr [JStr ''default_code'', JStr ''='', JStr ''A'']]]
      (JObj [(''fields'', JArr [JStr ''id'', JStr ''name'', JStr ''default_code'',
                               JStr ''list_price'', JStr ''qty_available'']),
             (''limit'', JNum (Fin 1))]) example_net =
    (Inr (JArr []), (new_OdooClient example_config)\<lparr>uid := JNum (Fin 7)\<rparr>,
     \<lparr> world = (),
       sent = [login_envelope (new_OdooClient example_config),
               execute_envelope ((new_OdooClient example_config)\<lparr>uid := JNum (Fin 7)\<rparr>)
                 (JStr ''product.product'') ''search_read''
                 [JArr [JArr [JStr ''default_code'', JStr ''='', JStr ''A'']]]
                 (JObj [(''fields'', JArr [JStr ''id'', JStr ''name'', JStr ''default_code'',
                                          JStr ''list_price'', JStr ''qty_available'']),
                        (''limit'', JNum (Fin 1))])] \<rparr>)"
    by (simp add: executeKw_def login_def jsonRpc_def backend_ok_def new_OdooClient_def
        example_config_def example_net_def envelope_def login_envelope_def execute_envelope_def)
  then show ?thesis
    by (simp add: example_after_tool_def search_product_by_reference_code_def
        example_getOdooClient)
qed

text \<open>
  C9, as stated, fails in its last clause. After one invocation of the product search tool, the
  client of the agent is not the one \<^verbatim>\<open>init\<close> built, which has no identity, but the
  one the tool built, with the identity 7 of the tool's login; the model listing read after it
  sends no login envelope and carries that identity.
\<close>

theorem resource_after_tool_counterexample:
  "uid (odoo (init example_parseInt example_props)) = JNull \<and>
   uid (odoo (fst (snd example_after_tool))) = JNum (Fin 7) \<and>
   map service (sent (snd (snd example_after_tool))) = [''common'', ''object''] \<and>
   map service (sent (snd (snd (models_resource backend_ok (fst (snd example_after_tool))
     (snd (snd example_after_tool)))))) = [''common'', ''object'', ''object''] \<and>
   args (last (sent (snd (snd (models_resource backend_ok (fst (snd example_after_tool))
     (snd (snd example_after_tool))))))) ! 1 = JNum (Fin 7)"
  by (simp add: example_after_tool_eq example_odoo models_resource_def executeKw_def login_def
      jsonRpc_def backend_ok_def new_OdooClient_def envelope_def login_envelope_def
      execute_envelope_def example_config_def)

theorem tool_handlers_witness:
  "\<not> nullish (uid (odoo (fst (snd example_after_tool)))) \<and>
   sent (snd (snd (models_resource backend_ok (fst (snd example_after_tool))
     (snd (snd example_after_tool))))) =
     sent (snd (snd example_after_tool)) @
       [execute_envelope ((new_OdooClient example_config)\<lparr>uid := JNum (Fin 7)\<rparr>)
          (JStr ''ir.model'') ''search_read''
          [JArr [], JArr [JStr ''model'', JStr ''name'']] (JObj [])]"
proof -
  have u: "\<not> nullish (uid (odoo (fst (snd example_after_tool))))"
    by (simp add: example_after_tool_eq)
  have c: "odoo (fst (snd example_after_tool)) =
      (new_OdooClient example_config)\<lparr>uid := JNum (Fin 7)\<rparr>"
    by (simp add: example_after_tool_eq)
  have "sent (snd (snd (models_resource backend_ok (fst (snd example_after_tool))
      (snd (snd example_after_tool))))) =
    sent (snd (snd example_after_tool)) @
      [execute_envelope (odoo (fst (snd example_after_tool))) (JStr ''ir.model'') ''search_read''
         [JArr [], JArr [JStr ''model'', JStr ''name'']] (JObj [])]"
    using tool_handlers_build_fresh_client [where parseInt = example_parseInt
        and this = "fst (snd example_after_tool)"
        and tr = backend_ok and n = "snd (snd example_after_tool)"] u
    by blast
  with u c show ?thesis by simp
qed

end
